theory Spec2Isabelle
  imports Complex_Main
begin

section \<open>JavaScript numbers\<close>

text \<open>
  A JavaScript Number is an IEEE-754 double. The model keeps the special values the
  simulation can produce (\<open>NaN\<close>, the two infinities, negative zero) and takes every
  finite value as an exact real: rounding, overflow and underflow of finite results are
  not modelled. \<open>Fin 0\<close> is positive zero.
\<close>

datatype jsnum = NaN | PInf | NInf | NegZero | Fin real

fun signbit :: "jsnum \<Rightarrow> bool" where
  "signbit NaN = False"
| "signbit PInf = False"
| "signbit NInf = True"
| "signbit NegZero = True"
| "signbit (Fin r) = (r < 0)"

fun is_nan :: "jsnum \<Rightarrow> bool" where
  "is_nan NaN = True"
| "is_nan _ = False"

fun is_inf :: "jsnum \<Rightarrow> bool" where
  "is_inf PInf = True"
| "is_inf NInf = True"
| "is_inf _ = False"

fun is_zero :: "jsnum \<Rightarrow> bool" where
  "is_zero NegZero = True"
| "is_zero (Fin r) = (r = 0)"
| "is_zero _ = False"

text \<open>The real value of a finite number (both zeros are 0).\<close>

fun rval :: "jsnum \<Rightarrow> real" where
  "rval (Fin r) = r"
| "rval _ = 0"

definition zero_s :: "bool \<Rightarrow> jsnum" where
  "zero_s neg = (if neg then NegZero else Fin 0)"

definition inf_s :: "bool \<Rightarrow> jsnum" where
  "inf_s neg = (if neg then NInf else PInf)"

text \<open>Unary minus flips the sign, of zero too.\<close>

fun jneg :: "jsnum \<Rightarrow> jsnum" where
  "jneg NaN = NaN"
| "jneg PInf = NInf"
| "jneg NInf = PInf"
| "jneg NegZero = Fin 0"
| "jneg (Fin r) = (if r = 0 then NegZero else Fin (- r))"

text \<open>
  Addition: opposite infinities give \<open>NaN\<close>; a zero sum is negative only when both
  operands are negative zero.
\<close>

fun jadd :: "jsnum \<Rightarrow> jsnum \<Rightarrow> jsnum" where
  "jadd NaN _ = NaN"
| "jadd _ NaN = NaN"
| "jadd PInf NInf = NaN"
| "jadd NInf PInf = NaN"
| "jadd PInf _ = PInf"
| "jadd _ PInf = PInf"
| "jadd NInf _ = NInf"
| "jadd _ NInf = NInf"
| "jadd NegZero NegZero = NegZero"
| "jadd NegZero (Fin b) = Fin b"
| "jadd (Fin a) NegZero = Fin a"
| "jadd (Fin a) (Fin b) = Fin (a + b)"

definition jsub :: "jsnum \<Rightarrow> jsnum \<Rightarrow> jsnum" where
  "jsub x y = jadd x (jneg y)"

text \<open>Multiplication: zero times infinity is \<open>NaN\<close>; the sign is the xor of the signs.\<close>

definition jmul :: "jsnum \<Rightarrow> jsnum \<Rightarrow> jsnum" where
  "jmul x y =
     (if is_nan x \<or> is_nan y then NaN
      else if (is_inf x \<and> is_zero y) \<or> (is_zero x \<and> is_inf y) then NaN
      else if is_inf x \<or> is_inf y then inf_s (signbit x \<noteq> signbit y)
      else if rval x * rval y = 0 then zero_s (signbit x \<noteq> signbit y)
      else Fin (rval x * rval y))"

text \<open>
  Division never raises: \<open>0/0\<close> and \<open>Infinity/Infinity\<close> are \<open>NaN\<close>, any other
  division by zero is an infinity.
\<close>

definition jdiv :: "jsnum \<Rightarrow> jsnum \<Rightarrow> jsnum" where
  "jdiv x y =
     (if is_nan x \<or> is_nan y then NaN
      else if (is_zero x \<and> is_zero y) \<or> (is_inf x \<and> is_inf y) then NaN
      else if is_inf x \<or> is_zero y then inf_s (signbit x \<noteq> signbit y)
      else if is_inf y \<or> is_zero x then zero_s (signbit x \<noteq> signbit y)
      else Fin (rval x / rval y))"

text \<open>\<open>Math.abs\<close>\<close>

fun jabs :: "jsnum \<Rightarrow> jsnum" where
  "jabs NaN = NaN"
| "jabs PInf = PInf"
| "jabs NInf = PInf"
| "jabs NegZero = Fin 0"
| "jabs (Fin r) = Fin \<bar>r\<bar>"

text \<open>The comparisons \<open><\<close>, \<open>>\<close>, \<open><=\<close>, \<open>>=\<close>: false as soon as one side is \<open>NaN\<close>.\<close>

fun jlt :: "jsnum \<Rightarrow> jsnum \<Rightarrow> bool" where
  "jlt NaN _ = False"
| "jlt _ NaN = False"
| "jlt PInf _ = False"
| "jlt _ NInf = False"
| "jlt NInf _ = True"
| "jlt _ PInf = True"
| "jlt x y = (rval x < rval y)"

definition jgt :: "jsnum \<Rightarrow> jsnum \<Rightarrow> bool" where
  "jgt x y = jlt y x"

definition jle :: "jsnum \<Rightarrow> jsnum \<Rightarrow> bool" where
  "jle x y = (\<not> is_nan x \<and> \<not> is_nan y \<and> \<not> jlt y x)"

definition jge :: "jsnum \<Rightarrow> jsnum \<Rightarrow> bool" where
  "jge x y = jle y x"

text \<open>Strict equality of two numbers: \<open>NaN\<close> equals nothing, the two zeros are equal.\<close>

definition jeq :: "jsnum \<Rightarrow> jsnum \<Rightarrow> bool" where
  "jeq x y = (\<not> is_nan x \<and> \<not> is_nan y \<and> \<not> jlt x y \<and> \<not> jlt y x)"

text \<open>\<open>Number.isFinite\<close>\<close>

fun is_fin :: "jsnum \<Rightarrow> bool" where
  "is_fin (Fin r) = True"
| "is_fin NegZero = True"
| "is_fin _ = False"

text \<open>A number that is \<open>NaN\<close>, \<open>Infinity\<close> or a finite number that is not negative.\<close>

fun nonneg_or_nan :: "jsnum \<Rightarrow> bool" where
  "nonneg_or_nan NaN = True"
| "nonneg_or_nan PInf = True"
| "nonneg_or_nan (Fin r) = (0 \<le> r)"
| "nonneg_or_nan _ = False"

text \<open>
  A value that is either a number or the string \<open>"N/A"\<close>, the marker the simulation
  stores when a trade has no oracle observation. In arithmetic the string is coerced to
  a number, and \<open>"N/A"\<close> coerces to \<open>NaN\<close>.
\<close>

datatype 'a or_na = Val 'a | NA

fun toNumber :: "jsnum or_na \<Rightarrow> jsnum" where
  "toNumber (Val x) = x"
| "toNumber NA = NaN"

section \<open>Oracle observations and the temporal matcher\<close>

text \<open>
  One element of \<open>chainlinkPrices\<close>. The round identifier and the timestamp are stored
  as decimal strings and read back with \<open>parseInt\<close>; the model keeps the integers.
  The price is \<open>parseFloat(formatUnits(answer, decimals))\<close>, a finite decimal.
\<close>

record observation =
  obs_roundId :: int
  obs_timestamp :: int
  obs_price :: real

text \<open>
  \<^verbatim>\<open>chainlinkPrices.filter((p) => parseInt(p.timestamp) <= swap.timestamp)
                 .sort((a, b) => parseInt(b.timestamp) - parseInt(a.timestamp))[0]\<close>
  \<open>Array.prototype.sort\<close> is stable; with this comparator it orders by descending
  timestamp, which is ascending order of the negated timestamp. Index 0 of an empty
  array is \<open>undefined\<close>, here \<open>None\<close>.
\<close>

definition findChainlinkPriceData :: "observation list \<Rightarrow> int \<Rightarrow> observation option" where
  "findChainlinkPriceData chainlinkPrices ts =
     (case sort_key (\<lambda>p. - obs_timestamp p)
             (filter (\<lambda>p. obs_timestamp p \<le> ts) chainlinkPrices) of
        [] \<Rightarrow> None
      | p # _ \<Rightarrow> Some p)"

section \<open>The per-trade computation of \<open>main\<close>\<close>

datatype error = RangeError | PoolNotFound | FetchFailed

text \<open>
  \<open>new Date(ms).toISOString()\<close> raises a \<open>RangeError\<close> when the time value is outside
  the range of a Date, 8.64e15 milliseconds either side of the epoch. The model keeps the
  time value instead of the formatted string.
\<close>

definition toISOString :: "int \<Rightarrow> error + int" where
  "toISOString ms =
     (if - 8640000000000000 \<le> ms \<and> ms \<le> 8640000000000000 then Inr ms else Inl RangeError)"

text \<open>
  A swap as the subgraph returns it; the two amounts are the values of
  \<open>parseFloat(swap.amount0)\<close> and \<open>parseFloat(swap.amount1)\<close>.
\<close>

record swap =
  sw_id :: string
  sw_amount0 :: jsnum
  sw_amount1 :: jsnum
  sw_timestamp :: int
  sw_transaction :: string

text \<open>
  The trades of the data model: both amounts are finite, one is negative and the other
  positive.
\<close>

definition wellformed_trade :: "swap \<Rightarrow> bool" where
  "wellformed_trade sw =
     (case (sw_amount0 sw, sw_amount1 sw) of
        (Fin a, Fin b) \<Rightarrow> (a < 0 \<and> 0 < b) \<or> (0 < a \<and> b < 0)
      | _ \<Rightarrow> False)"

text \<open>
  The object pushed to \<open>resultData.swaps\<close>. Only one of the two hook-price fields is
  set, the other stays absent.
\<close>

record swapData =
  swapTimestamp :: int
  transactionHash :: string
  amount0 :: jsnum
  amount1 :: jsnum
  price :: jsnum
  isBuyingETH :: bool
  isSellingETH :: bool
  chainlinkPrice :: "jsnum or_na"
  chainlinkTimestamp :: "int or_na"
  timeDifference :: "int or_na"
  priceDifferencePercent :: jsnum
  dynamicLeveryFeePercent :: jsnum
  standardFee :: jsnum
  dynamicLeveryFee :: jsnum
  leveryEfficiencyPercent :: jsnum
  leveryHookPricePlusFee :: "jsnum option"
  leveryHookPriceMinusFee :: "jsnum option"

definition LP_FEE_MULTIPLIER :: jsnum where
  "LP_FEE_MULTIPLIER = Fin 70"

definition standardFeePercent :: jsnum where
  "standardFeePercent = Fin 0.05"

text \<open>
  \<^verbatim>\<open>if (amount0 < 0) { price = -amount0 / amount1; ... isBuyingETH = true; }
  else { price = amount0 / -amount1; ... isSellingETH = true; }\<close>
\<close>

definition swapPrice :: "jsnum \<Rightarrow> jsnum \<Rightarrow> jsnum" where
  "swapPrice a0 a1 =
     (if jlt a0 (Fin 0) then jdiv (jneg a0) a1 else jdiv a0 (jneg a1))"

text \<open>
  \<^verbatim>\<open>let dynamicLeveryFeePercent = 0.05;
  if (chainlinkPrice !== "N/A") {
    priceDifferencePercent = ((price - chainlinkPrice) / chainlinkPrice) * 100;
    priceDifferencePercent = Math.abs(priceDifferencePercent);
    dynamicLeveryFeePercent += (priceDifferencePercent * LP_FEE_MULTIPLIER) / 100;
  }\<close>
\<close>

definition dynamicFeePercent :: "jsnum \<Rightarrow> jsnum or_na \<Rightarrow> jsnum" where
  "dynamicFeePercent pr cp =
     (if cp \<noteq> NA then
        (let pd = jmul (jdiv (jsub pr (toNumber cp)) (toNumber cp)) (Fin 100);
             pd = jabs pd
         in jadd (Fin 0.05) (jdiv (jmul pd LP_FEE_MULTIPLIER) (Fin 100)))
      else Fin 0.05)"

text \<open>
  \<^verbatim>\<open>const swapAmount = Math.abs(amount0) > Math.abs(amount1) ? Math.abs(amount0) : Math.abs(amount1);\<close>
\<close>

definition swapAmount :: "jsnum \<Rightarrow> jsnum \<Rightarrow> jsnum" where
  "swapAmount a0 a1 = (if jgt (jabs a0) (jabs a1) then jabs a0 else jabs a1)"

text \<open>
  \<^verbatim>\<open>let leveryEfficiencyPercent = 0;
  if (isBuyingETH) {
    leveryEfficiencyPercent = ((chainlinkPrice - leveryHookPricePlusFee) / chainlinkPrice) * 100;
  } else if (isSellingETH) {
    leveryEfficiencyPercent = ((leveryHookPriceMinusFee - chainlinkPrice) / chainlinkPrice) * 100;
  }\<close>
  There is no test of \<open>chainlinkPrice\<close> here: the marker \<open>"N/A"\<close> is coerced to \<open>NaN\<close>.
\<close>

definition efficiencyPercent :: "bool \<Rightarrow> bool \<Rightarrow> jsnum or_na \<Rightarrow> jsnum \<Rightarrow> jsnum \<Rightarrow> jsnum" where
  "efficiencyPercent buying selling cp hookPlus hookMinus =
     (if buying then jmul (jdiv (jsub (toNumber cp) hookPlus) (toNumber cp)) (Fin 100)
      else if selling then jmul (jdiv (jsub hookMinus (toNumber cp)) (toNumber cp)) (Fin 100)
      else Fin 0)"

text \<open>
  The body of the loop \<open>for (const swap of swaps)\<close> up to the construction of
  \<open>swapData\<close> (logging left out). The two calls of \<open>toISOString\<close> are the only
  places where it can raise.
\<close>

definition computeSwap :: "observation list \<Rightarrow> swap \<Rightarrow> error + swapData" where
  "computeSwap chainlinkPrices sw =
     (case toISOString (sw_timestamp sw * 1000) of
        Inl e \<Rightarrow> Inl e
      | Inr swapTs \<Rightarrow>
         (let a0 = sw_amount0 sw;
              a1 = sw_amount1 sw;
              buying = jlt a0 (Fin 0);
              selling = \<not> jlt a0 (Fin 0);
              pr = swapPrice a0 a1;
              chainlinkPriceData = findChainlinkPriceData chainlinkPrices (sw_timestamp sw);
              cp = (case chainlinkPriceData of Some d \<Rightarrow> Val (Fin (obs_price d)) | None \<Rightarrow> NA);
              cts = (case chainlinkPriceData of
                       Some d \<Rightarrow> map_sum id Val (toISOString (obs_timestamp d * 1000))
                     | None \<Rightarrow> Inr NA);
              td = (case chainlinkPriceData of
                      Some d \<Rightarrow> Val \<bar>sw_timestamp sw - obs_timestamp d\<bar>
                    | None \<Rightarrow> NA);
              fee = dynamicFeePercent pr cp;
              hookPlus = jadd pr (jdiv (jmul pr fee) (Fin 100));
              hookMinus = jsub pr (jdiv (jmul pr fee) (Fin 100));
              amt = swapAmount a0 a1;
              stdFee = jdiv (jmul amt standardFeePercent) (Fin 100);
              dynFee = jdiv (jmul amt fee) (Fin 100);
              eff = efficiencyPercent buying selling cp hookPlus hookMinus
          in case cts of
               Inl e \<Rightarrow> Inl e
             | Inr chainlinkTs \<Rightarrow>
                 Inr \<lparr> swapTimestamp = swapTs,
                       transactionHash = sw_transaction sw,
                       amount0 = a0,
                       amount1 = a1,
                       price = pr,
                       isBuyingETH = buying,
                       isSellingETH = selling,
                       chainlinkPrice = cp,
                       chainlinkTimestamp = chainlinkTs,
                       timeDifference = td,
                       priceDifferencePercent =
                         jmul (jdiv (jsub pr (toNumber cp)) (toNumber cp)) (Fin 100),
                       dynamicLeveryFeePercent = fee,
                       standardFee = stdFee,
                       dynamicLeveryFee = dynFee,
                       leveryEfficiencyPercent = eff,
                       leveryHookPricePlusFee = (if buying then Some hookPlus else None),
                       leveryHookPriceMinusFee =
                         (if buying then None else if selling then Some hookMinus else None) \<rparr>))"

section \<open>The fee formulas of the alternate entry point\<close>

text \<open>
  \<open>app.js\<close> has the same retrieval and matching code and another fee rule:
  \<^verbatim>\<open>priceDifferencePercent = Math.abs(priceDifferencePercent);
  if (chainlinkPrice > price && isBuyingETH) {
    dynamicLeveryFeePercent += 0.9 * priceDifferencePercent;
  } else if (chainlinkPrice < price && isSellingETH) {
    dynamicLeveryFeePercent += 0.9 * priceDifferencePercent;
  }\<close>
  and \<open>leveryHookPricePlusFee = price + 0.9 * priceDifferencePercent\<close> for both
  directions. The comparison of the marker \<open>"N/A"\<close> does not occur: it is inside the
  test \<open>chainlinkPrice !== "N/A"\<close>.
\<close>

definition app_priceDifferencePercent :: "jsnum \<Rightarrow> jsnum or_na \<Rightarrow> jsnum" where
  "app_priceDifferencePercent pr cp =
     (if cp \<noteq> NA
      then jabs (jmul (jdiv (jsub pr (toNumber cp)) (toNumber cp)) (Fin 100))
      else Fin 0)"

definition app_dynamicFeePercent :: "jsnum \<Rightarrow> bool \<Rightarrow> bool \<Rightarrow> jsnum or_na \<Rightarrow> jsnum" where
  "app_dynamicFeePercent pr buying selling cp =
     (if cp \<noteq> NA then
        (if jgt (toNumber cp) pr \<and> buying
         then jadd (Fin 0.05) (jmul (Fin 0.9) (app_priceDifferencePercent pr cp))
         else if jlt (toNumber cp) pr \<and> selling
         then jadd (Fin 0.05) (jmul (Fin 0.9) (app_priceDifferencePercent pr cp))
         else Fin 0.05)
      else Fin 0.05)"

definition app_leveryHookPricePlusFee :: "jsnum \<Rightarrow> jsnum or_na \<Rightarrow> jsnum" where
  "app_leveryHookPricePlusFee pr cp = jadd pr (jmul (Fin 0.9) (app_priceDifferencePercent pr cp))"

section \<open>The report and its accumulation\<close>

text \<open>The object \<open>resultData\<close>.\<close>

record resultData =
  totalSwaps :: nat
  totalVolumeETH :: jsnum
  totalVolumeUSDC :: jsnum
  totalStandardFee :: jsnum
  totalDynamicLeveryFee :: jsnum
  averageLeveryEfficiencyPercent :: jsnum
  swaps :: "swapData list"

text \<open>
  The state the loop of \<open>main\<close> updates: \<open>resultData\<close> and the three local
  accumulators \<open>totalStandardFee\<close>, \<open>totalDynamicLeveryFee\<close> and
  \<open>totalLeveryEfficiencyPercent\<close>.
\<close>

record main_state =
  result :: resultData
  loc_totalStandardFee :: jsnum
  loc_totalDynamicLeveryFee :: jsnum
  loc_totalLeveryEfficiencyPercent :: jsnum

definition initial_state :: main_state where
  "initial_state =
     \<lparr> result = \<lparr> totalSwaps = 0, totalVolumeETH = Fin 0, totalVolumeUSDC = Fin 0,
                  totalStandardFee = Fin 0, totalDynamicLeveryFee = Fin 0,
                  averageLeveryEfficiencyPercent = Fin 0, swaps = [] \<rparr>,
       loc_totalStandardFee = Fin 0,
       loc_totalDynamicLeveryFee = Fin 0,
       loc_totalLeveryEfficiencyPercent = Fin 0 \<rparr>"

text \<open>
  One iteration. On the buying branch the volumes grow by \<open>amount1\<close> and \<open>-amount0\<close>,
  on the selling branch by \<open>-amount1\<close> and \<open>amount0\<close>. An exception leaves the loop
  and the \<open>try\<close> block: no report is written.
\<close>

definition swapStep :: "observation list \<Rightarrow> main_state \<Rightarrow> swap \<Rightarrow> error + main_state" where
  "swapStep chainlinkPrices st sw =
     (case computeSwap chainlinkPrices sw of
        Inl e \<Rightarrow> Inl e
      | Inr d \<Rightarrow>
          (let r = result st;
               r' = r \<lparr> totalVolumeETH :=
                          jadd (totalVolumeETH r)
                            (if isBuyingETH d then amount1 d else jneg (amount1 d)),
                        totalVolumeUSDC :=
                          jadd (totalVolumeUSDC r)
                            (if isBuyingETH d then jneg (amount0 d) else amount0 d),
                        swaps := swaps r @ [d],
                        totalSwaps := totalSwaps r + 1 \<rparr>
           in Inr (st \<lparr> result := r',
                        loc_totalStandardFee := jadd (loc_totalStandardFee st) (standardFee d),
                        loc_totalDynamicLeveryFee :=
                          jadd (loc_totalDynamicLeveryFee st) (dynamicLeveryFee d),
                        loc_totalLeveryEfficiencyPercent :=
                          jadd (loc_totalLeveryEfficiencyPercent st)
                            (leveryEfficiencyPercent d) \<rparr>)))"

fun main_loop :: "observation list \<Rightarrow> main_state \<Rightarrow> swap list \<Rightarrow> error + main_state" where
  "main_loop chainlinkPrices st [] = Inr st"
| "main_loop chainlinkPrices st (sw # sws) =
     (case swapStep chainlinkPrices st sw of
        Inl e \<Rightarrow> Inl e
      | Inr st' \<Rightarrow> main_loop chainlinkPrices st' sws)"

text \<open>
  \<^verbatim>\<open>resultData.totalStandardFee = totalStandardFee;
  resultData.totalDynamicLeveryFee = totalDynamicLeveryFee;
  resultData.averageLeveryEfficiencyPercent = totalLeveryEfficiencyPercent / resultData.totalSwaps;\<close>
\<close>

definition finalize :: "main_state \<Rightarrow> resultData" where
  "finalize st =
     (result st) \<lparr> totalStandardFee := loc_totalStandardFee st,
                   totalDynamicLeveryFee := loc_totalDynamicLeveryFee st,
                   averageLeveryEfficiencyPercent :=
                     jdiv (loc_totalLeveryEfficiencyPercent st)
                          (Fin (real (totalSwaps (result st)))) \<rparr>"

text \<open>The part of \<open>main\<close> that follows the two retrievals.\<close>

definition main_report :: "observation list \<Rightarrow> swap list \<Rightarrow> error + resultData" where
  "main_report chainlinkPrices sws =
     (case main_loop chainlinkPrices initial_state sws of
        Inl e \<Rightarrow> Inl e
      | Inr st \<Rightarrow> Inr (finalize st))"

text \<open>
  \<open>JSON.stringify\<close> writes a finite number as it is and \<open>NaN\<close> and the infinities as
  \<open>null\<close> (here \<open>None\<close>); negative zero is written \<open>0\<close>.
\<close>

fun json_number :: "jsnum \<Rightarrow> real option" where
  "json_number (Fin r) = Some r"
| "json_number NegZero = Some 0"
| "json_number _ = None"

section \<open>The oracle history builder\<close>

text \<open>
  The Chainlink aggregator as the builder sees it. \<open>latestRound\<close> and \<open>decimals\<close>
  are taken to answer; \<open>getRoundData\<close> may fail or time out, and its outcome may
  differ from one attempt to the next, so it takes the number of the attempt (from 1)
  with the round identifier. \<open>None\<close> is a rejected or timed-out call.
\<close>

record roundData =
  updatedAt :: int
  answer :: int

record priceFeed =
  latestRound :: int
  decimals :: nat
  getRoundData :: "nat \<Rightarrow> int \<Rightarrow> roundData option"

definition MAX_RETRIES :: nat where
  "MAX_RETRIES = 5"

text \<open>
  \<^verbatim>\<open>for (let attempt = 1; attempt <= MAX_RETRIES; attempt++) {
    try { return await Promise.race([priceFeed.getRoundData(roundId), timeout]); }
    catch (error) { if (attempt < MAX_RETRIES) { ...wait... } else { throw error; } }
  }\<close>
\<close>

function fetchRoundDataWithRetry_from :: "priceFeed \<Rightarrow> int \<Rightarrow> nat \<Rightarrow> error + roundData" where
  "fetchRoundDataWithRetry_from pf roundId attempt =
     (if attempt \<le> MAX_RETRIES then
        (case getRoundData pf attempt roundId of
           Some rd \<Rightarrow> Inr rd
         | None \<Rightarrow>
             if attempt < MAX_RETRIES
             then fetchRoundDataWithRetry_from pf roundId (attempt + 1)
             else Inl FetchFailed)
      else Inl FetchFailed)"
  by pat_completeness auto
termination
  by (relation "measure (\<lambda>(pf, roundId, attempt). Suc MAX_RETRIES - attempt)") auto

declare fetchRoundDataWithRetry_from.simps [simp del]

definition fetchRoundDataWithRetry :: "priceFeed \<Rightarrow> int \<Rightarrow> error + roundData" where
  "fetchRoundDataWithRetry pf roundId = fetchRoundDataWithRetry_from pf roundId 1"

text \<open>
  The entry pushed to \<open>prices\<close> for a round:
  \<^verbatim>\<open>{ roundId: roundId.toString(), timestamp: roundData.updatedAt.toString(),
    price: parseFloat(ethers.utils.formatUnits(roundData.answer, await priceFeed.decimals())) }\<close>
\<close>

definition mkObservation :: "priceFeed \<Rightarrow> int \<Rightarrow> roundData \<Rightarrow> observation" where
  "mkObservation pf roundId rd =
     \<lparr> obs_roundId = roundId, obs_timestamp = updatedAt rd,
       obs_price = real_of_int (answer rd) / 10 ^ decimals pf \<rparr>"

text \<open>
  The backward walk. Besides \<open>prices\<close> the model carries the list of the round
  identifiers passed to \<open>fetchRoundDataWithRetry\<close> so far, and returns it with the
  outcome.
  \<^verbatim>\<open>while (roundData.updatedAt > startTime && roundId.gt(0)) {
    if (roundData.updatedAt <= endTime && !prices.find((p) => p.roundId === roundId.toString())) {
      prices.push({...});
    }
    roundId = roundId.sub(1);
    roundData = await fetchRoundDataWithRetry(priceFeed, roundId, log);
  }\<close>
\<close>

function walk_rounds ::
  "priceFeed \<Rightarrow> real \<Rightarrow> real \<Rightarrow> int \<Rightarrow> roundData \<Rightarrow> observation list \<Rightarrow> int list
     \<Rightarrow> int list \<times> (error + int \<times> observation list)" where
  "walk_rounds pf startTime endTime roundId rd prices fetched =
     (if real_of_int (updatedAt rd) > startTime \<and> roundId > 0 then
        (case fetchRoundDataWithRetry pf (roundId - 1) of
           Inl e \<Rightarrow> (fetched @ [roundId - 1], Inl e)
         | Inr rd' \<Rightarrow>
             walk_rounds pf startTime endTime (roundId - 1) rd'
               (if real_of_int (updatedAt rd) \<le> endTime \<and>
                   find (\<lambda>p. obs_roundId p = roundId) prices = None
                then prices @ [mkObservation pf roundId rd]
                else prices)
               (fetched @ [roundId - 1]))
      else (fetched, Inr (roundId, prices)))"
  by pat_completeness auto
termination
  by (relation "measure (\<lambda>(pf, startTime, endTime, roundId, rd, prices, fetched). nat roundId)")
    auto

declare walk_rounds.simps [simp del]

text \<open>
  \<^verbatim>\<open>for (let i = 0; i < 5; i++) {
    roundId = roundId.sub(1);
    roundData = await fetchRoundDataWithRetry(priceFeed, roundId, log);
    prices.push({...});
  }\<close>
\<close>

fun extra_rounds ::
  "priceFeed \<Rightarrow> nat \<Rightarrow> int \<Rightarrow> observation list \<Rightarrow> int list
     \<Rightarrow> int list \<times> (error + observation list)" where
  "extra_rounds pf 0 roundId prices fetched = (fetched, Inr prices)"
| "extra_rounds pf (Suc n) roundId prices fetched =
     (case fetchRoundDataWithRetry pf (roundId - 1) of
        Inl e \<Rightarrow> (fetched @ [roundId - 1], Inl e)
      | Inr rd \<Rightarrow>
          extra_rounds pf n (roundId - 1) (prices @ [mkObservation pf (roundId - 1) rd])
            (fetched @ [roundId - 1]))"

text \<open>
  \<open>fetchHistoricalChainlinkPrices\<close>. The argument \<open>cache\<close> is the content of
  \<open>rounds.json\<close>, empty when the file does not exist; the list returned is also what
  is written back to the file. The first component of the result is the list of round
  identifiers requested, in order.
\<close>

definition fetchHistoricalChainlinkPrices ::
  "priceFeed \<Rightarrow> observation list \<Rightarrow> real \<Rightarrow> real \<Rightarrow> int list \<times> (error + observation list)" where
  "fetchHistoricalChainlinkPrices pf cache startTime endTime =
     (case fetchRoundDataWithRetry pf (latestRound pf) of
        Inl e \<Rightarrow> ([latestRound pf], Inl e)
      | Inr rd \<Rightarrow>
          (case walk_rounds pf startTime endTime (latestRound pf) rd cache [latestRound pf] of
             (fetched, Inl e) \<Rightarrow> (fetched, Inl e)
           | (fetched, Inr (roundId, prices)) \<Rightarrow> extra_rounds pf 5 roundId prices fetched))"

section \<open>The trade ingestor\<close>

text \<open>
  What one request to the subgraph can yield: the request fails, the answer has no
  \<open>pool\<close>, or it has a pool with its page of swaps. The source is a function of the
  number of the request (from 0), the \<open>timestamp\<close> variable and the \<open>lastId\<close>
  variable of the query.
\<close>

datatype response = RequestError | NoPool | Pool "swap list"

text \<open>
  \<^verbatim>\<open>while (hasMore) {
    const response = await axios.post(...{ timestamp: Math.floor(startTime / 1000), lastId: lastId });
    const pool = response.data.data.pool;
    if (!pool) { throw new Error("Pool not found"); }
    const swaps = pool.swaps;
    allSwaps = allSwaps.concat(swaps);
    if (swaps.length < 1000) { hasMore = false; } else { lastId = swaps[swaps.length - 1].id; }
  }\<close>
  The loop ends only when the source sends a short page or fails, so it is a partial
  function: \<open>None\<close> is a run that never returns. The model also returns the cursors of
  the requests made, in order.
\<close>

partial_function (option) fetchSwaps_loop ::
  "(nat \<Rightarrow> int \<Rightarrow> string \<Rightarrow> response) \<Rightarrow> int \<Rightarrow> nat \<Rightarrow> string \<Rightarrow> swap list \<Rightarrow> string list
     \<Rightarrow> (string list \<times> (error + swap list)) option" where
  "fetchSwaps_loop src ts n lastId allSwaps cursors =
     (case src n ts lastId of
        RequestError \<Rightarrow> Some (cursors @ [lastId], Inl FetchFailed)
      | NoPool \<Rightarrow> Some (cursors @ [lastId], Inl PoolNotFound)
      | Pool page \<Rightarrow>
          if length page < 1000
          then Some (cursors @ [lastId], Inr (allSwaps @ page))
          else fetchSwaps_loop src ts (n + 1) (sw_id (last page)) (allSwaps @ page)
                 (cursors @ [lastId]))"

definition fetchSwaps ::
  "(nat \<Rightarrow> int \<Rightarrow> string \<Rightarrow> response) \<Rightarrow> int
     \<Rightarrow> (string list \<times> (error + swap list)) option" where
  "fetchSwaps src startTime = fetchSwaps_loop src (startTime div 1000) 0 '''' [] []"

text \<open>
  The pagination rule in the words of the specification: the first cursor is empty, the
  cursor of the next page is the identifier of the last record of the current page, and
  a page is the answer to the request carrying its cursor.
\<close>

fun cursor_at :: "(nat \<Rightarrow> int \<Rightarrow> string \<Rightarrow> response) \<Rightarrow> int \<Rightarrow> nat \<Rightarrow> string" where
  "cursor_at src ts 0 = ''''"
| "cursor_at src ts (Suc k) =
     (case src k ts (cursor_at src ts k) of
        Pool page \<Rightarrow> sw_id (last page)
      | _ \<Rightarrow> '''')"

definition page_at :: "(nat \<Rightarrow> int \<Rightarrow> string \<Rightarrow> response) \<Rightarrow> int \<Rightarrow> nat \<Rightarrow> response" where
  "page_at src ts k = src k ts (cursor_at src ts k)"

fun records_of :: "response \<Rightarrow> swap list" where
  "records_of (Pool page) = page"
| "records_of _ = []"

text \<open>A page that does not end the retrieval: a pool with at least 1000 records.\<close>

fun full_page :: "response \<Rightarrow> bool" where
  "full_page (Pool page) = (\<not> length page < 1000)"
| "full_page _ = False"

text \<open>Page \<open>k\<close> is the first one that is not full.\<close>

definition first_short :: "(nat \<Rightarrow> int \<Rightarrow> string \<Rightarrow> response) \<Rightarrow> int \<Rightarrow> nat \<Rightarrow> bool" where
  "first_short src ts k =
     (list_all (\<lambda>i. full_page (page_at src ts i)) [0..<k] \<and> \<not> full_page (page_at src ts k))"

section \<open>Sample data\<close>

text \<open>
  Three oracle rounds, a purchase after the second round at a price 1 per cent above the
  oracle, a sale at the oracle price of the first round, a sale dated before every
  round, and a feed whose only round reports the price zero.
\<close>

definition sample_prices :: "observation list" where
  "sample_prices =
     [\<lparr>obs_roundId = 3, obs_timestamp = 300, obs_price = 3100\<rparr>,
      \<lparr>obs_roundId = 2, obs_timestamp = 200, obs_price = 3000\<rparr>,
      \<lparr>obs_roundId = 1, obs_timestamp = 100, obs_price = 2900\<rparr>]"

definition sample_buy :: swap where
  "sample_buy = \<lparr>sw_id = ''s1'', sw_amount0 = Fin (- 3030), sw_amount1 = Fin 1,
                  sw_timestamp = 250, sw_transaction = ''t1''\<rparr>"

definition sample_sell :: swap where
  "sample_sell = \<lparr>sw_id = ''s2'', sw_amount0 = Fin 5800, sw_amount1 = Fin (- 2),
                   sw_timestamp = 120, sw_transaction = ''t2''\<rparr>"

definition sample_early :: swap where
  "sample_early = \<lparr>sw_id = ''s3'', sw_amount0 = Fin 3030, sw_amount1 = Fin (- 1),
                    sw_timestamp = 50, sw_transaction = ''t3''\<rparr>"

definition sample_zero_prices :: "observation list" where
  "sample_zero_prices = [\<lparr>obs_roundId = 1, obs_timestamp = 200, obs_price = 0\<rparr>]"

text \<open>What the loop body computes for these trades.\<close>

definition sample_buy_data :: swapData where
  "sample_buy_data =
     \<lparr>swapTimestamp = 250000, transactionHash = ''t1'',
     amount0 = Fin (- 3030), amount1 = Fin 1, price = Fin 3030,
     isBuyingETH = True, isSellingETH = False,
     chainlinkPrice = Val (Fin 3000), chainlinkTimestamp = Val 200000,
     timeDifference = Val 50, priceDifferencePercent = Fin 1,
     dynamicLeveryFeePercent = Fin 0.75,
     standardFee = Fin 1.515, dynamicLeveryFee = Fin 22.725,
     leveryEfficiencyPercent = Fin (- 1.7575),
     leveryHookPricePlusFee = Some (Fin 3052.725),
     leveryHookPriceMinusFee = None\<rparr>"

definition sample_sell_data :: swapData where
  "sample_sell_data =
     \<lparr>swapTimestamp = 120000, transactionHash = ''t2'', amount0 = Fin 5800,
     amount1 = Fin (- 2), price = Fin 2900, isBuyingETH = False,
     isSellingETH = True, chainlinkPrice = Val (Fin 2900),
     chainlinkTimestamp = Val 100000, timeDifference = Val 20,
     priceDifferencePercent = Fin 0,
     dynamicLeveryFeePercent = Fin 0.05, standardFee = Fin 2.9,
     dynamicLeveryFee = Fin 2.9,
     leveryEfficiencyPercent = Fin (- 0.05),
     leveryHookPricePlusFee = None,
     leveryHookPriceMinusFee = Some (Fin 2898.55)\<rparr>"

definition sample_early_data :: swapData where
  "sample_early_data =
     \<lparr>swapTimestamp = 50000, transactionHash = ''t3'', amount0 = Fin 3030,
     amount1 = Fin (- 1), price = Fin 3030, isBuyingETH = False,
     isSellingETH = True, chainlinkPrice = NA, chainlinkTimestamp = NA,
     timeDifference = NA, priceDifferencePercent = NaN,
     dynamicLeveryFeePercent = Fin 0.05,
     standardFee = Fin 1.515, dynamicLeveryFee = Fin 1.515,
     leveryEfficiencyPercent = NaN, leveryHookPricePlusFee = None,
     leveryHookPriceMinusFee = Some (Fin 3028.485)\<rparr>"

definition sample_zero_data :: swapData where
  "sample_zero_data =
     \<lparr>swapTimestamp = 250000, transactionHash = ''t1'',
     amount0 = Fin (- 3030), amount1 = Fin 1, price = Fin 3030,
     isBuyingETH = True, isSellingETH = False,
     chainlinkPrice = Val (Fin 0), chainlinkTimestamp = Val 200000,
     timeDifference = Val 50, priceDifferencePercent = PInf,
     dynamicLeveryFeePercent = PInf, standardFee = Fin 1.515,
     dynamicLeveryFee = PInf, leveryEfficiencyPercent = NInf,
     leveryHookPricePlusFee = Some PInf, leveryHookPriceMinusFee = None\<rparr>"

text \<open>
  A feed of rounds 0 to 10, ten seconds apart, that rejects a negative round identifier
  (as the contract binding does when it encodes the \<open>uint80\<close> argument), and the same
  feed when its latest round is round 2.
\<close>

definition sample_rounds :: "nat \<Rightarrow> int \<Rightarrow> roundData option" where
  "sample_rounds attempt r =
     (if 0 \<le> r then Some \<lparr>updatedAt = 1000 + 10 * r, answer = (3000 + r) * 100000000\<rparr>
      else None)"

definition sample_feed :: priceFeed where
  "sample_feed = \<lparr>latestRound = 10, decimals = 8, getRoundData = sample_rounds\<rparr>"

definition sample_short_feed :: priceFeed where
  "sample_short_feed = \<lparr>latestRound = 2, decimals = 8, getRoundData = sample_rounds\<rparr>"

text \<open>
  The same rounds served by a feed object that answers for any identifier, and the
  observations the builder returns for \<open>sample_feed\<close> between the times 1065 and 2000
  when it starts without a cache.
\<close>

definition sample_lenient_feed :: priceFeed where
  "sample_lenient_feed =
     \<lparr>latestRound = 2, decimals = 8,
      getRoundData = (\<lambda>attempt r. Some \<lparr>updatedAt = 1000 + 10 * r, answer = (3000 + r) * 100000000\<rparr>)\<rparr>"

definition sample_cache :: "observation list" where
  "sample_cache =
     [\<lparr>obs_roundId = 10, obs_timestamp = 1100, obs_price = 3010\<rparr>,
      \<lparr>obs_roundId = 9, obs_timestamp = 1090, obs_price = 3009\<rparr>,
      \<lparr>obs_roundId = 8, obs_timestamp = 1080, obs_price = 3008\<rparr>,
      \<lparr>obs_roundId = 7, obs_timestamp = 1070, obs_price = 3007\<rparr>,
      \<lparr>obs_roundId = 5, obs_timestamp = 1050, obs_price = 3005\<rparr>,
      \<lparr>obs_roundId = 4, obs_timestamp = 1040, obs_price = 3004\<rparr>,
      \<lparr>obs_roundId = 3, obs_timestamp = 1030, obs_price = 3003\<rparr>,
      \<lparr>obs_roundId = 2, obs_timestamp = 1020, obs_price = 3002\<rparr>,
      \<lparr>obs_roundId = 1, obs_timestamp = 1010, obs_price = 3001\<rparr>]"

text \<open>
  A trade source that answers the empty cursor with a page of 1000 records, the cursor
  \<open>s1\<close> with a page of one record, and has no pool otherwise; and a source without the
  pool.
\<close>

definition sample_source :: "nat \<Rightarrow> int \<Rightarrow> string \<Rightarrow> response" where
  "sample_source n ts lastId =
     (if lastId = '''' then Pool (replicate 1000 sample_buy)
      else if lastId = ''s1'' then Pool [sample_sell]
      else NoPool)"

definition sample_absent_source :: "nat \<Rightarrow> int \<Rightarrow> string \<Rightarrow> response" where
  "sample_absent_source n ts lastId = NoPool"

section \<open>Properties of the temporal matcher\<close>

lemma sort_key_hd_least:
  assumes "sort_key f xs = p # ps" and "q \<in> set xs"
  shows "(f p :: int) \<le> f q"
proof -
  have "sorted (map f (sort_key f xs))"
    by (rule sorted_sort_key)
  then have "\<forall>y \<in> set (map f ps). f p \<le> y"
    using assms(1) by simp
  moreover have "q \<in> set (p # ps)"
    using assms by (metis set_sort)
  ultimately show ?thesis
    by auto
qed

lemma findChainlinkPriceData_None:
  "findChainlinkPriceData obs t = None \<longleftrightarrow> (\<forall>q \<in> set obs. \<not> obs_timestamp q \<le> t)"
proof -
  let ?ys = "filter (\<lambda>p. obs_timestamp p \<le> t) obs"
  have "findChainlinkPriceData obs t = None \<longleftrightarrow> sort_key (\<lambda>p. - obs_timestamp p) ?ys = []"
    by (simp add: findChainlinkPriceData_def split: list.splits)
  also have "\<dots> \<longleftrightarrow> ?ys = []"
    by (metis length_sort length_0_conv)
  also have "\<dots> \<longleftrightarrow> (\<forall>q \<in> set obs. \<not> obs_timestamp q \<le> t)"
    by (simp add: filter_empty_conv)
  finally show ?thesis .
qed

lemma findChainlinkPriceData_Some:
  assumes "findChainlinkPriceData obs t = Some p"
  shows "p \<in> set obs \<and> obs_timestamp p \<le> t \<and>
         (\<forall>q \<in> set obs. obs_timestamp q \<le> t \<longrightarrow> obs_timestamp q \<le> obs_timestamp p)"
proof -
  let ?ys = "filter (\<lambda>p. obs_timestamp p \<le> t) obs"
  obtain ps where srt: "sort_key (\<lambda>p. - obs_timestamp p) ?ys = p # ps"
    using assms by (auto simp: findChainlinkPriceData_def split: list.splits)
  then have "p \<in> set (sort_key (\<lambda>p. - obs_timestamp p) ?ys)"
    by simp
  then have mem: "p \<in> set ?ys"
    by (simp only: set_sort)
  have "obs_timestamp q \<le> obs_timestamp p" if "q \<in> set obs" "obs_timestamp q \<le> t" for q
  proof -
    from that have "q \<in> set ?ys" by simp
    from sort_key_hd_least [OF srt this] show ?thesis by simp
  qed
  with mem show ?thesis by simp
qed

section \<open>Arithmetic on finite numbers\<close>

lemma jmul_commute: "jmul x y = jmul y x"
  by (cases x; cases y) (auto simp: jmul_def mult.commute)

lemma jsub_Fin [simp]: "jsub (Fin a) (Fin b) = Fin (a - b)"
  by (simp add: jsub_def)

lemma jmul_fin: "is_fin x \<Longrightarrow> is_fin y \<Longrightarrow> is_fin (jmul x y) \<and> rval (jmul x y) = rval x * rval y"
  by (cases x; cases y) (auto simp: jmul_def zero_s_def)

lemma jdiv_fin: "is_fin x \<Longrightarrow> is_fin y \<Longrightarrow> rval y \<noteq> 0 \<Longrightarrow> is_fin (jdiv x y) \<and> rval (jdiv x y) = rval x / rval y"
  by (cases x; cases y) (auto simp: jdiv_def zero_s_def)

lemma jabs_fin: "is_fin x \<Longrightarrow> jabs x = Fin \<bar>rval x\<bar>"
  by (cases x) auto

lemma jadd_Fin_fin: "is_fin y \<Longrightarrow> jadd (Fin a) y = Fin (a + rval y)"
  by (cases y) auto

lemma jsub_Fin_fin: "is_fin y \<Longrightarrow> jsub (Fin a) y = Fin (a - rval y)"
  by (cases y) (auto simp: jsub_def)


lemma nonneg_jabs: "nonneg_or_nan (jabs x)"
  by (cases x) auto

lemma nonneg_jmul_pos: "nonneg_or_nan x \<Longrightarrow> 0 < c \<Longrightarrow> nonneg_or_nan (jmul x (Fin c))"
  by (cases x) (auto simp: jmul_def inf_s_def zero_s_def)

lemma nonneg_jdiv_pos: "nonneg_or_nan x \<Longrightarrow> 0 < c \<Longrightarrow> nonneg_or_nan (jdiv x (Fin c))"
  by (cases x) (auto simp: jdiv_def inf_s_def zero_s_def)

lemma nonneg_jadd_base:
  "nonneg_or_nan x \<Longrightarrow> jadd (Fin b) x = NaN \<or> jge (jadd (Fin b) x) (Fin b)"
  by (cases x) (auto simp: jge_def jle_def)

lemma dynamicFeePercent_nan_or_ge:
  "dynamicFeePercent pr cp = NaN \<or> jge (dynamicFeePercent pr cp) (Fin 0.05)"
proof (cases "cp = NA")
  case True
  then show ?thesis by (simp add: dynamicFeePercent_def jge_def jle_def)
next
  case False
  let ?pd = "jabs (jmul (jdiv (jsub pr (toNumber cp)) (toNumber cp)) (Fin 100))"
  have "nonneg_or_nan (jdiv (jmul ?pd LP_FEE_MULTIPLIER) (Fin 100))"
    unfolding LP_FEE_MULTIPLIER_def by (intro nonneg_jdiv_pos nonneg_jmul_pos nonneg_jabs) simp_all
  from nonneg_jadd_base [OF this, of "0.05"] False show ?thesis
    by (auto simp: dynamicFeePercent_def Let_def)
qed

lemma dynamicFeePercent_NA [simp]: "dynamicFeePercent pr NA = Fin 0.05"
  by (simp add: dynamicFeePercent_def)

lemma dynamicFeePercent_finite:
  assumes "c \<noteq> 0"
  shows "dynamicFeePercent (Fin x) (Val (Fin c)) = Fin (0.05 + 70 * \<bar>(x - c) / c * 100\<bar> / 100)"
proof -
  define q where "q = jdiv (Fin (x - c)) (Fin c)"
  have q: "is_fin q" "rval q = (x - c) / c"
    using jdiv_fin [of "Fin (x - c)" "Fin c"] assms by (simp_all add: q_def)
  define pd where "pd = jmul q (Fin 100)"
  have pd: "is_fin pd" "rval pd = (x - c) / c * 100"
    using jmul_fin [of q "Fin 100"] q by (simp_all add: pd_def)
  define A where "A = \<bar>(x - c) / c * 100\<bar>"
  have ab: "jabs pd = Fin A"
    using pd by (simp add: jabs_fin A_def)
  define m where "m = jmul (Fin A) (Fin 70)"
  have m: "is_fin m" "rval m = A * 70"
    using jmul_fin [of "Fin A" "Fin 70"] by (simp_all add: m_def)
  define d where "d = jdiv m (Fin 100)"
  have d: "is_fin d" "rval d = A * 70 / 100"
    using jdiv_fin [of m "Fin 100"] m by (simp_all add: d_def)
  have "dynamicFeePercent (Fin x) (Val (Fin c)) = jadd (Fin 0.05) d"
    by (simp add: dynamicFeePercent_def Let_def LP_FEE_MULTIPLIER_def
        flip: q_def pd_def, simp add: ab flip: m_def d_def)
  also have "\<dots> = Fin (0.05 + A * 70 / 100)"
    using d by (simp add: jadd_Fin_fin)
  finally show ?thesis by (simp add: A_def mult.commute)
qed

lemma swapPrice_wellformed:
  assumes "wellformed_trade sw"
  shows "\<exists>x>0. swapPrice (sw_amount0 sw) (sw_amount1 sw) = Fin x"
proof -
  from assms obtain a b where ab: "sw_amount0 sw = Fin a" "sw_amount1 sw = Fin b"
    and sg: "(a < 0 \<and> 0 < b) \<or> (0 < a \<and> b < 0)"
    by (auto simp: wellformed_trade_def split: jsnum.splits)
  from sg show ?thesis
  proof
    assume "a < 0 \<and> 0 < b"
    then have "swapPrice (Fin a) (Fin b) = Fin (- a / b) \<and> 0 < - a / b"
      by (simp add: swapPrice_def jdiv_def divide_less_0_iff)
    with ab show ?thesis by auto
  next
    assume "0 < a \<and> b < 0"
    then have "swapPrice (Fin a) (Fin b) = Fin (a / - b) \<and> 0 < a / - b"
      by (simp add: swapPrice_def jdiv_def divide_less_0_iff)
    with ab show ?thesis by auto
  qed
qed

lemma dynamicFeePercent_zero_oracle:
  "x \<noteq> 0 \<Longrightarrow> dynamicFeePercent (Fin x) (Val (Fin 0)) = PInf"
  by (simp add: dynamicFeePercent_def Let_def jdiv_def jmul_def inf_s_def LP_FEE_MULTIPLIER_def)

lemma computeSwap_fields:
  assumes "computeSwap obs sw = Inr d"
  shows "amount0 d = sw_amount0 sw" and "amount1 d = sw_amount1 sw"
    and "price d = swapPrice (sw_amount0 sw) (sw_amount1 sw)"
    and "isBuyingETH d = jlt (sw_amount0 sw) (Fin 0)"
    and "isSellingETH d = (\<not> jlt (sw_amount0 sw) (Fin 0))"
    and "chainlinkPrice d =
           (case findChainlinkPriceData obs (sw_timestamp sw) of
              Some p \<Rightarrow> Val (Fin (obs_price p)) | None \<Rightarrow> NA)"
    and "timeDifference d =
           (case findChainlinkPriceData obs (sw_timestamp sw) of
              Some p \<Rightarrow> Val \<bar>sw_timestamp sw - obs_timestamp p\<bar> | None \<Rightarrow> NA)"
    and "priceDifferencePercent d =
           jmul (jdiv (jsub (price d) (toNumber (chainlinkPrice d))) (toNumber (chainlinkPrice d))) (Fin 100)"
    and "dynamicLeveryFeePercent d = dynamicFeePercent (price d) (chainlinkPrice d)"
    and "standardFee d =
           jdiv (jmul (swapAmount (sw_amount0 sw) (sw_amount1 sw)) standardFeePercent) (Fin 100)"
    and "dynamicLeveryFee d =
           jdiv (jmul (swapAmount (sw_amount0 sw) (sw_amount1 sw)) (dynamicLeveryFeePercent d)) (Fin 100)"
    and "leveryEfficiencyPercent d =
           efficiencyPercent (isBuyingETH d) (isSellingETH d) (chainlinkPrice d)
             (jadd (price d) (jdiv (jmul (price d) (dynamicLeveryFeePercent d)) (Fin 100)))
             (jsub (price d) (jdiv (jmul (price d) (dynamicLeveryFeePercent d)) (Fin 100)))"
    and "leveryHookPricePlusFee d =
           (if isBuyingETH d
            then Some (jadd (price d) (jdiv (jmul (price d) (dynamicLeveryFeePercent d)) (Fin 100)))
            else None)"
    and "leveryHookPriceMinusFee d =
           (if isSellingETH d
            then Some (jsub (price d) (jdiv (jmul (price d) (dynamicLeveryFeePercent d)) (Fin 100)))
            else None)"
  using assms
  by (auto simp: computeSwap_def Let_def split: sum.splits)

lemma computeSwap_total_None:
  assumes "findChainlinkPriceData obs (sw_timestamp sw) = None"
    and "toISOString (sw_timestamp sw * 1000) = Inr t"
  shows "\<exists>d. computeSwap obs sw = Inr d \<and> chainlinkTimestamp d = NA"
  using assms by (simp add: computeSwap_def Let_def)

lemma computeSwap_total_Some:
  assumes "findChainlinkPriceData obs (sw_timestamp sw) = Some p"
    and "toISOString (sw_timestamp sw * 1000) = Inr t"
    and "toISOString (obs_timestamp p * 1000) = Inr t'"
  shows "\<exists>d. computeSwap obs sw = Inr d \<and> chainlinkTimestamp d = Val t'"
  using assms by (simp add: computeSwap_def Let_def)

section \<open>The sample trades\<close>

lemma computeSwap_sample_buy:
  "computeSwap sample_prices sample_buy = Inr sample_buy_data"
  by code_simp

lemma computeSwap_sample_sell:
  "computeSwap sample_prices sample_sell = Inr sample_sell_data"
  by code_simp

lemma computeSwap_sample_early:
  "computeSwap sample_prices sample_early = Inr sample_early_data"
  by code_simp

lemma find_sample_buy:
  "findChainlinkPriceData sample_prices (sw_timestamp sample_buy)
     = Some \<lparr>obs_roundId = 2, obs_timestamp = 200, obs_price = 3000\<rparr>"
  by code_simp

lemma find_sample_sell:
  "findChainlinkPriceData sample_prices (sw_timestamp sample_sell)
     = Some \<lparr>obs_roundId = 1, obs_timestamp = 100, obs_price = 2900\<rparr>"
  by code_simp

lemma find_sample_early:
  "findChainlinkPriceData sample_prices (sw_timestamp sample_early) = None"
  by code_simp

section \<open>The matched observation\<close>

lemma computeSwap_chainlinkTimestamp:
  assumes "computeSwap obs sw = Inr d"
  shows "chainlinkTimestamp d =
           (case findChainlinkPriceData obs (sw_timestamp sw) of
              Some p \<Rightarrow> Val (obs_timestamp p * 1000) | None \<Rightarrow> NA)"
  using assms
  by (auto simp: computeSwap_def Let_def toISOString_def
      split: sum.splits option.splits if_splits)

text \<open>
  C1. The matcher pairs a trade at time \<open>t\<close> with an observation of the list whose
  timestamp is at most \<open>t\<close> and is the greatest such timestamp; it yields no observation
  exactly when no observation has a timestamp at most \<open>t\<close>. The record of a processed
  trade holds the price, the time and the gap of the observation the matcher yields for
  the trade's timestamp, and the marker \<open>"N/A"\<close> in the three fields when it yields
  none.
\<close>

theorem matcher_latest_at_or_before:
  "(findChainlinkPriceData obs t = None \<longleftrightarrow> (\<forall>q \<in> set obs. \<not> obs_timestamp q \<le> t)) \<and>
   (\<forall>p. findChainlinkPriceData obs t = Some p \<longrightarrow>
        p \<in> set obs \<and> obs_timestamp p \<le> t \<and>
        (\<forall>q \<in> set obs. obs_timestamp q \<le> t \<longrightarrow> obs_timestamp q \<le> obs_timestamp p)) \<and>
   (computeSwap obs sw = Inr d \<longrightarrow>
      (case findChainlinkPriceData obs (sw_timestamp sw) of
         None \<Rightarrow> chainlinkPrice d = NA \<and> chainlinkTimestamp d = NA \<and> timeDifference d = NA
       | Some p \<Rightarrow>
           chainlinkPrice d = Val (Fin (obs_price p)) \<and>
           chainlinkTimestamp d = Val (obs_timestamp p * 1000) \<and>
           timeDifference d = Val \<bar>sw_timestamp sw - obs_timestamp p\<bar>))"
proof (intro conjI impI)
  show "findChainlinkPriceData obs t = None \<longleftrightarrow> (\<forall>q \<in> set obs. \<not> obs_timestamp q \<le> t)"
    by (rule findChainlinkPriceData_None)
  show "\<forall>p. findChainlinkPriceData obs t = Some p \<longrightarrow>
        p \<in> set obs \<and> obs_timestamp p \<le> t \<and>
        (\<forall>q \<in> set obs. obs_timestamp q \<le> t \<longrightarrow> obs_timestamp q \<le> obs_timestamp p)"
    using findChainlinkPriceData_Some by blast
next
  assume c: "computeSwap obs sw = Inr d"
  show "case findChainlinkPriceData obs (sw_timestamp sw) of
         None \<Rightarrow> chainlinkPrice d = NA \<and> chainlinkTimestamp d = NA \<and> timeDifference d = NA
       | Some p \<Rightarrow>
           chainlinkPrice d = Val (Fin (obs_price p)) \<and>
           chainlinkTimestamp d = Val (obs_timestamp p * 1000) \<and>
           timeDifference d = Val \<bar>sw_timestamp sw - obs_timestamp p\<bar>"
    using computeSwap_fields(6,7) [OF c] computeSwap_chainlinkTimestamp [OF c]
    by (simp split: option.splits)
qed

theorem matcher_latest_at_or_before_witness:
  "findChainlinkPriceData sample_prices (sw_timestamp sample_buy)
     = Some \<lparr>obs_roundId = 2, obs_timestamp = 200, obs_price = 3000\<rparr> \<and>
   \<lparr>obs_roundId = 2, obs_timestamp = 200, obs_price = 3000\<rparr> \<in> set sample_prices \<and>
   (200 :: int) \<le> sw_timestamp sample_buy \<and>
   findChainlinkPriceData sample_prices (sw_timestamp sample_early) = None \<and>
   computeSwap sample_prices sample_buy = Inr sample_buy_data \<and>
   chainlinkPrice sample_buy_data = Val (Fin 3000) \<and>
   timeDifference sample_buy_data = Val 50 \<and>
   computeSwap sample_prices sample_early = Inr sample_early_data \<and>
   chainlinkPrice sample_early_data = NA \<and>
   timeDifference sample_early_data = NA"
proof -
  note f = find_sample_buy and e = find_sample_early
  from matcher_latest_at_or_before [of sample_prices "sw_timestamp sample_buy"] f
  have a: "\<lparr>obs_roundId = 2, obs_timestamp = 200, obs_price = 3000\<rparr> \<in> set sample_prices \<and>
           (200 :: int) \<le> sw_timestamp sample_buy"
    by auto
  from matcher_latest_at_or_before
         [of sample_prices "sw_timestamp sample_buy" sample_buy sample_buy_data]
    computeSwap_sample_buy f
  have b: "chainlinkPrice sample_buy_data = Val (Fin 3000) \<and>
           timeDifference sample_buy_data = Val 50"
    by (simp add: sample_buy_def)
  from matcher_latest_at_or_before
         [of sample_prices "sw_timestamp sample_early" sample_early sample_early_data]
    computeSwap_sample_early e
  have c: "chainlinkPrice sample_early_data = NA \<and> timeDifference sample_early_data = NA"
    by simp
  from a b c f e computeSwap_sample_buy computeSwap_sample_early show ?thesis
    by (intro conjI) simp_all
qed

section \<open>The fee computation\<close>

text \<open>
  C2. When the trade is matched to an oracle observation, the dynamic fee percent is
  0.05 plus 70 times the absolute value of the deviation percent, divided by 100, where
  the deviation percent is \<open>(price - oraclePrice) / oraclePrice * 100\<close>; on finite
  values with a nonzero oracle price this is the real number given by that formula.
  There is no cap: every bound is exceeded by the fee of some matched trade.
\<close>

theorem dynamic_fee_formula:
  "(findChainlinkPriceData obs (sw_timestamp sw) = Some p \<and> computeSwap obs sw = Inr d \<longrightarrow>
      chainlinkPrice d = Val (Fin (obs_price p)) \<and>
      priceDifferencePercent d =
        jmul (jdiv (jsub (price d) (Fin (obs_price p))) (Fin (obs_price p))) (Fin 100) \<and>
      dynamicLeveryFeePercent d =
        jadd (Fin 0.05) (jdiv (jmul (Fin 70) (jabs (priceDifferencePercent d))) (Fin 100)) \<and>
      (\<forall>x. price d = Fin x \<and> obs_price p \<noteq> 0 \<longrightarrow>
           dynamicLeveryFeePercent d =
             Fin (0.05 + 70 * \<bar>(x - obs_price p) / obs_price p * 100\<bar> / 100))) \<and>
   (\<forall>B. \<exists>obs' sw' d'. computeSwap obs' sw' = Inr d' \<and> chainlinkPrice d' \<noteq> NA \<and>
        jgt (dynamicLeveryFeePercent d') (Fin B))"
proof (intro conjI impI allI)
  assume h: "findChainlinkPriceData obs (sw_timestamp sw) = Some p \<and> computeSwap obs sw = Inr d"
  then have c: "computeSwap obs sw = Inr d" and f: "findChainlinkPriceData obs (sw_timestamp sw) = Some p"
    by simp_all
  show cp: "chainlinkPrice d = Val (Fin (obs_price p))"
    using computeSwap_fields(6) [OF c] f by simp
  show pd: "priceDifferencePercent d =
        jmul (jdiv (jsub (price d) (Fin (obs_price p))) (Fin (obs_price p))) (Fin 100)"
    using computeSwap_fields(8) [OF c] cp by simp
  show "dynamicLeveryFeePercent d =
        jadd (Fin 0.05) (jdiv (jmul (Fin 70) (jabs (priceDifferencePercent d))) (Fin 100))"
    using computeSwap_fields(9) [OF c] cp pd
    by (simp add: dynamicFeePercent_def Let_def LP_FEE_MULTIPLIER_def jmul_commute [of "Fin 70"])
  fix x
  assume "price d = Fin x \<and> obs_price p \<noteq> 0"
  then show "dynamicLeveryFeePercent d =
             Fin (0.05 + 70 * \<bar>(x - obs_price p) / obs_price p * 100\<bar> / 100)"
    using computeSwap_fields(9) [OF c] cp dynamicFeePercent_finite [of "obs_price p" x] by simp
next
  fix B :: real
  define x where "x = \<bar>B\<bar> + 2"
  define sw' where "sw' = \<lparr> sw_id = '''', sw_amount0 = Fin (- x), sw_amount1 = Fin 1,
                            sw_timestamp = 0, sw_transaction = '''' \<rparr>"
  define obs' where "obs' = [\<lparr> obs_roundId = 0, obs_timestamp = 0, obs_price = 1 \<rparr>]"
  have x: "0 < x" by (simp add: x_def)
  have f: "findChainlinkPriceData obs' (sw_timestamp sw') = Some \<lparr> obs_roundId = 0, obs_timestamp = 0, obs_price = 1 \<rparr>"
    by (simp add: findChainlinkPriceData_def obs'_def sw'_def)
  obtain d' where c: "computeSwap obs' sw' = Inr d'"
    using computeSwap_total_Some [OF f, of 0 0] by (auto simp: toISOString_def sw'_def)
  have cp: "chainlinkPrice d' = Val (Fin 1)"
    using computeSwap_fields(6) [OF c] f by simp
  have pr: "price d' = Fin x"
    using computeSwap_fields(3) [OF c] x by (simp add: sw'_def swapPrice_def jdiv_def)
  have "dynamicLeveryFeePercent d' = Fin (0.05 + 70 * \<bar>(x - 1) / 1 * 100\<bar> / 100)"
    using computeSwap_fields(9) [OF c] cp pr dynamicFeePercent_finite [of 1 x] by simp
  moreover have "B < 0.05 + 70 * \<bar>(x - 1) / 1 * 100\<bar> / 100"
  proof -
    have "B < 1 / 20 + (70 * \<bar>B\<bar> + 70)" by linarith
    then show ?thesis by (simp add: x_def add_divide_distrib)
  qed
  ultimately have "jgt (dynamicLeveryFeePercent d') (Fin B)"
    by (simp add: jgt_def)
  with c cp show "\<exists>obs' sw' d'. computeSwap obs' sw' = Inr d' \<and> chainlinkPrice d' \<noteq> NA \<and>
        jgt (dynamicLeveryFeePercent d') (Fin B)"
    by (metis or_na.distinct(1))
qed



theorem dynamic_fee_formula_witness:
  "findChainlinkPriceData sample_prices (sw_timestamp sample_buy)
     = Some \<lparr>obs_roundId = 2, obs_timestamp = 200, obs_price = 3000\<rparr> \<and>
   computeSwap sample_prices sample_buy = Inr sample_buy_data \<and>
   Fin 0.75 = jadd (Fin 0.05) (jdiv (jmul (Fin 70) (jabs (Fin 1))) (Fin 100))"
proof -
  let ?d = sample_buy_data
  have "dynamicLeveryFeePercent ?d =
          jadd (Fin 0.05) (jdiv (jmul (Fin 70) (jabs (priceDifferencePercent ?d))) (Fin 100))"
    using dynamic_fee_formula
            [of sample_prices sample_buy
                "\<lparr>obs_roundId = 2, obs_timestamp = 200, obs_price = 3000\<rparr>" ?d]
      computeSwap_sample_buy find_sample_buy
    by blast
  then have "Fin 0.75 = jadd (Fin 0.05) (jdiv (jmul (Fin 70) (jabs (Fin 1))) (Fin 100))"
    by (simp add: sample_buy_data_def)
  with find_sample_buy computeSwap_sample_buy show ?thesis
    by (intro conjI)
qed

text \<open>
  C4. The hook price is the traded price plus \<open>price * dynamicFeePercent / 100\<close>
  when the trade buys the base asset (\<open>amount0 < 0\<close>) and the traded price minus
  that amount when it sells; every trade is exactly one of the two. This holds whether or
  not an oracle price is available, so in particular when one is.
\<close>

theorem hook_price_by_direction:
  "computeSwap obs sw = Inr d \<longrightarrow>
     (isBuyingETH d \<longleftrightarrow> jlt (sw_amount0 sw) (Fin 0)) \<and>
     (isSellingETH d \<longleftrightarrow> \<not> isBuyingETH d) \<and>
     (isBuyingETH d \<longrightarrow>
        leveryHookPricePlusFee d =
          Some (jadd (price d) (jdiv (jmul (price d) (dynamicLeveryFeePercent d)) (Fin 100))) \<and>
        leveryHookPriceMinusFee d = None) \<and>
     (isSellingETH d \<longrightarrow>
        leveryHookPriceMinusFee d =
          Some (jsub (price d) (jdiv (jmul (price d) (dynamicLeveryFeePercent d)) (Fin 100))) \<and>
        leveryHookPricePlusFee d = None) \<and>
     (\<forall>x f. price d = Fin x \<and> dynamicLeveryFeePercent d = Fin f \<longrightarrow>
        (isBuyingETH d \<longrightarrow> leveryHookPricePlusFee d = Some (Fin (x + x * f / 100))) \<and>
        (isSellingETH d \<longrightarrow> leveryHookPriceMinusFee d = Some (Fin (x - x * f / 100))))"
proof (intro impI)
  assume c: "computeSwap obs sw = Inr d"
  note fs = computeSwap_fields [OF c]
  have fin: "is_fin (jdiv (jmul (Fin x) (Fin f)) (Fin 100)) \<and>
             rval (jdiv (jmul (Fin x) (Fin f)) (Fin 100)) = x * f / 100" for x f
    using jmul_fin [of "Fin x" "Fin f"] jdiv_fin [of "jmul (Fin x) (Fin f)" "Fin 100"] by simp
  show "(isBuyingETH d \<longleftrightarrow> jlt (sw_amount0 sw) (Fin 0)) \<and>
     (isSellingETH d \<longleftrightarrow> \<not> isBuyingETH d) \<and>
     (isBuyingETH d \<longrightarrow>
        leveryHookPricePlusFee d =
          Some (jadd (price d) (jdiv (jmul (price d) (dynamicLeveryFeePercent d)) (Fin 100))) \<and>
        leveryHookPriceMinusFee d = None) \<and>
     (isSellingETH d \<longrightarrow>
        leveryHookPriceMinusFee d =
          Some (jsub (price d) (jdiv (jmul (price d) (dynamicLeveryFeePercent d)) (Fin 100))) \<and>
        leveryHookPricePlusFee d = None) \<and>
     (\<forall>x f. price d = Fin x \<and> dynamicLeveryFeePercent d = Fin f \<longrightarrow>
        (isBuyingETH d \<longrightarrow> leveryHookPricePlusFee d = Some (Fin (x + x * f / 100))) \<and>
        (isSellingETH d \<longrightarrow> leveryHookPriceMinusFee d = Some (Fin (x - x * f / 100))))"
    using fs(4,5,13,14) fin by (auto simp: jadd_Fin_fin jsub_Fin_fin)
qed

theorem hook_price_by_direction_witness:
  "computeSwap sample_prices sample_buy = Inr sample_buy_data \<and>
   computeSwap sample_prices sample_sell = Inr sample_sell_data \<and>
   (3052.725 :: real) = 3030 + 3030 * 0.75 / 100 \<and>
   (2898.55 :: real) = 2900 - 2900 * 0.05 / 100"
  using hook_price_by_direction [of sample_prices sample_buy
     sample_buy_data]
    hook_price_by_direction [of sample_prices sample_sell
     sample_sell_data]
    computeSwap_sample_buy computeSwap_sample_sell
  by simp

lemma jeq_Fin [simp]: "jeq (Fin a) (Fin b) \<longleftrightarrow> a = b"
  by (auto simp: jeq_def)

lemma jge_Fin [simp]: "jge (Fin a) (Fin b) \<longleftrightarrow> b \<le> a"
  by (auto simp: jge_def jle_def)

text \<open>
  C5. The standard fee percent is the constant 0.05 for every trade, and the dynamic fee
  percent of any trade is at least 0.05 unless it is \<open>NaN\<close>. For every well-formed
  trade (finite amounts of opposite signs) the dynamic fee percent is at least 0.05, and
  it is exactly 0.05 when the traded price equals the oracle price.
\<close>

theorem dynamic_fee_at_least_base:
  "(computeSwap obs sw = Inr d \<longrightarrow>
      standardFeePercent = Fin 0.05 \<and>
      standardFee d =
        jdiv (jmul (swapAmount (sw_amount0 sw) (sw_amount1 sw)) standardFeePercent) (Fin 100) \<and>
      (dynamicLeveryFeePercent d = NaN \<or> jge (dynamicLeveryFeePercent d) (Fin 0.05))) \<and>
   (wellformed_trade sw \<and> computeSwap obs sw = Inr d \<longrightarrow>
      jge (dynamicLeveryFeePercent d) (Fin 0.05) \<and>
      (\<forall>p. findChainlinkPriceData obs (sw_timestamp sw) = Some p \<and>
           jeq (price d) (Fin (obs_price p)) \<longrightarrow>
           dynamicLeveryFeePercent d = Fin 0.05))"
proof (intro conjI impI allI)
  assume c: "computeSwap obs sw = Inr d"
  show "standardFeePercent = Fin 0.05"
    by (simp add: standardFeePercent_def)
  show "standardFee d =
        jdiv (jmul (swapAmount (sw_amount0 sw) (sw_amount1 sw)) standardFeePercent) (Fin 100)"
    using computeSwap_fields(10) [OF c] .
  show "dynamicLeveryFeePercent d = NaN \<or> jge (dynamicLeveryFeePercent d) (Fin 0.05)"
    using computeSwap_fields(9) [OF c] dynamicFeePercent_nan_or_ge by simp
next
  assume h: "wellformed_trade sw \<and> computeSwap obs sw = Inr d"
  then have c: "computeSwap obs sw = Inr d" and w: "wellformed_trade sw"
    by simp_all
  from swapPrice_wellformed [OF w] computeSwap_fields(3) [OF c]
  obtain x where x: "0 < x" "price d = Fin x"
    by auto
  have fee: "dynamicLeveryFeePercent d = dynamicFeePercent (Fin x) (chainlinkPrice d)"
    using computeSwap_fields(9) [OF c] x by simp
  show "jge (dynamicLeveryFeePercent d) (Fin 0.05)"
  proof (cases "findChainlinkPriceData obs (sw_timestamp sw)")
    case None
    then show ?thesis
      using computeSwap_fields(6) [OF c] fee by simp
  next
    case (Some p)
    then have cp: "chainlinkPrice d = Val (Fin (obs_price p))"
      using computeSwap_fields(6) [OF c] by simp
    show ?thesis
    proof (cases "obs_price p = 0")
      case True
      with x cp fee show ?thesis
        by (simp add: dynamicFeePercent_zero_oracle jge_def jle_def)
    next
      case False
      with cp fee show ?thesis
        by (simp add: dynamicFeePercent_finite)
    qed
  qed
  fix p
  assume "findChainlinkPriceData obs (sw_timestamp sw) = Some p \<and>
          jeq (price d) (Fin (obs_price p))"
  then have cp: "chainlinkPrice d = Val (Fin (obs_price p))" and e: "obs_price p = x"
    using computeSwap_fields(6) [OF c] x by simp_all
  with x fee show "dynamicLeveryFeePercent d = Fin 0.05"
    by (simp add: dynamicFeePercent_finite)
qed

theorem dynamic_fee_at_least_base_witness:
  "wellformed_trade sample_buy \<and> wellformed_trade sample_sell \<and>
   computeSwap sample_prices sample_buy = Inr sample_buy_data \<and>
   computeSwap sample_prices sample_sell = Inr sample_sell_data \<and>
   findChainlinkPriceData sample_prices (sw_timestamp sample_sell)
     = Some \<lparr>obs_roundId = 1, obs_timestamp = 100, obs_price = 2900\<rparr> \<and>
   jeq (Fin 2900) (Fin 2900) \<and>
   jge (Fin 0.75) (Fin 0.05) \<and> jge (Fin 0.05) (Fin 0.05)"
proof -
  let ?b = sample_buy_data
  let ?s = sample_sell_data
  have wb: "wellformed_trade sample_buy" and ws: "wellformed_trade sample_sell"
    by (simp_all add: wellformed_trade_def sample_buy_def sample_sell_def)
  have "jge (dynamicLeveryFeePercent ?b) (Fin 0.05)"
    using dynamic_fee_at_least_base [of sample_prices sample_buy ?b] wb computeSwap_sample_buy
    by blast
  moreover have "jge (dynamicLeveryFeePercent ?s) (Fin 0.05)"
    using dynamic_fee_at_least_base [of sample_prices sample_sell ?s] ws computeSwap_sample_sell
    by blast
  ultimately have "jge (Fin 0.75) (Fin 0.05) \<and> jge (Fin 0.05) (Fin 0.05)"
    by simp
  moreover have "jeq (Fin 2900) (Fin 2900)"
    by simp
  ultimately show ?thesis
    using wb ws computeSwap_sample_buy computeSwap_sample_sell find_sample_sell
    by (intro conjI) simp_all
qed

section \<open>The fee rule of the alternate entry point\<close>

text \<open>
  The rule of \<open>app.js\<close> is another function: on the sample purchase, one per cent above
  the oracle price, it charges the base rate where \<open>main\<close> charges 0.75, and its hook
  price is the traded price plus 0.9.
\<close>

lemma app_variant_differs:
  "dynamicFeePercent (Fin 3030) (Val (Fin 3000)) = Fin 0.75"
  "app_dynamicFeePercent (Fin 3030) True False (Val (Fin 3000)) = Fin 0.05"
  "app_leveryHookPricePlusFee (Fin 3030) (Val (Fin 3000)) = Fin 3030.9"
  by (simp_all add: dynamicFeePercent_def app_dynamicFeePercent_def
      app_leveryHookPricePlusFee_def app_priceDifferencePercent_def LP_FEE_MULTIPLIER_def
      jdiv_def jmul_def jgt_def Let_def)

lemma app_dynamicFeePercent_nan_or_ge:
  "app_dynamicFeePercent pr buying selling cp = NaN \<or>
   jge (app_dynamicFeePercent pr buying selling cp) (Fin 0.05)"
proof -
  have "nonneg_or_nan (jmul (Fin 0.9) (app_priceDifferencePercent pr cp))"
    using nonneg_jmul_pos [of "app_priceDifferencePercent pr cp" "0.9"] nonneg_jabs
    by (simp add: app_priceDifferencePercent_def jmul_commute [of "Fin (9 / 10)"])
  from nonneg_jadd_base [OF this, of "0.05"] show ?thesis
    by (auto simp: app_dynamicFeePercent_def jge_def jle_def)
qed

section \<open>Accumulation of an unmatched trade\<close>

lemma swapAmount_Fin: "swapAmount (Fin a) (Fin b) = Fin (max \<bar>a\<bar> \<bar>b\<bar>)"
  by (simp add: swapAmount_def jgt_def max_def)

lemma fee_amount_Fin:
  "0 \<le> m \<Longrightarrow> 0 \<le> f \<Longrightarrow> jdiv (jmul (Fin m) (Fin f)) (Fin 100) = Fin (m * f / 100)"
  by (auto simp: jmul_def jdiv_def zero_s_def)

lemma swapStep_fields:
  assumes "computeSwap obs sw = Inr d"
  shows "\<exists>st'. swapStep obs st sw = Inr st' \<and>
      loc_totalStandardFee st' = jadd (loc_totalStandardFee st) (standardFee d) \<and>
      loc_totalDynamicLeveryFee st' = jadd (loc_totalDynamicLeveryFee st) (dynamicLeveryFee d) \<and>
      loc_totalLeveryEfficiencyPercent st' =
        jadd (loc_totalLeveryEfficiencyPercent st) (leveryEfficiencyPercent d) \<and>
      totalSwaps (result st') = totalSwaps (result st) + 1 \<and>
      swaps (result st') = swaps (result st) @ [d] \<and>
      totalVolumeETH (result st') =
        jadd (totalVolumeETH (result st))
          (if jlt (sw_amount0 sw) (Fin 0) then sw_amount1 sw else jneg (sw_amount1 sw)) \<and>
      totalVolumeUSDC (result st') =
        jadd (totalVolumeUSDC (result st))
          (if jlt (sw_amount0 sw) (Fin 0) then jneg (sw_amount0 sw) else sw_amount0 sw)"
  using assms computeSwap_fields(1,2,4) [OF assms]
  by (simp add: swapStep_def Let_def)

lemma finalize_totals:
  "totalStandardFee (finalize st) = loc_totalStandardFee st"
  "totalDynamicLeveryFee (finalize st) = loc_totalDynamicLeveryFee st"
  "totalSwaps (finalize st) = totalSwaps (result st)"
  "totalVolumeETH (finalize st) = totalVolumeETH (result st)"
  "totalVolumeUSDC (finalize st) = totalVolumeUSDC (result st)"
  "swaps (finalize st) = swaps (result st)"
  by (simp_all add: finalize_def)

text \<open>
  C10. A trade with no qualifying oracle observation (and a timestamp a Date can hold)
  is processed: its dynamic fee percent is exactly 0.05, its standard and dynamic fee
  amounts are both 0.05 per cent of the larger absolute amount, they are added to the
  fee totals that finalization copies into the report, and the trade is counted in
  \<open>totalSwaps\<close>, appended to \<open>swaps\<close> and added to the two volume totals.
\<close>

theorem unmatched_trade_base_fee_and_totals:
  "findChainlinkPriceData obs (sw_timestamp sw) = None \<and>
   toISOString (sw_timestamp sw * 1000) = Inr t \<longrightarrow>
   (\<exists>d st'. computeSwap obs sw = Inr d \<and> swapStep obs st sw = Inr st' \<and>
      dynamicLeveryFeePercent d = Fin 0.05 \<and>
      standardFee d =
        jdiv (jmul (swapAmount (sw_amount0 sw) (sw_amount1 sw)) (Fin 0.05)) (Fin 100) \<and>
      dynamicLeveryFee d =
        jdiv (jmul (swapAmount (sw_amount0 sw) (sw_amount1 sw)) (Fin 0.05)) (Fin 100) \<and>
      (\<forall>a b. sw_amount0 sw = Fin a \<and> sw_amount1 sw = Fin b \<longrightarrow>
         standardFee d = Fin (max \<bar>a\<bar> \<bar>b\<bar> * 0.05 / 100) \<and>
         dynamicLeveryFee d = Fin (max \<bar>a\<bar> \<bar>b\<bar> * 0.05 / 100)) \<and>
      loc_totalStandardFee st' = jadd (loc_totalStandardFee st) (standardFee d) \<and>
      loc_totalDynamicLeveryFee st' = jadd (loc_totalDynamicLeveryFee st) (dynamicLeveryFee d) \<and>
      totalStandardFee (finalize st') = loc_totalStandardFee st' \<and>
      totalDynamicLeveryFee (finalize st') = loc_totalDynamicLeveryFee st' \<and>
      totalSwaps (result st') = totalSwaps (result st) + 1 \<and>
      swaps (result st') = swaps (result st) @ [d] \<and>
      totalVolumeETH (result st') =
        jadd (totalVolumeETH (result st))
          (if jlt (sw_amount0 sw) (Fin 0) then sw_amount1 sw else jneg (sw_amount1 sw)) \<and>
      totalVolumeUSDC (result st') =
        jadd (totalVolumeUSDC (result st))
          (if jlt (sw_amount0 sw) (Fin 0) then jneg (sw_amount0 sw) else sw_amount0 sw))"
proof
  assume h: "findChainlinkPriceData obs (sw_timestamp sw) = None \<and>
             toISOString (sw_timestamp sw * 1000) = Inr t"
  then obtain d where c: "computeSwap obs sw = Inr d"
    using computeSwap_total_None by blast
  note fs = computeSwap_fields [OF c]
  have cp: "chainlinkPrice d = NA"
    using fs(6) h by simp
  have fee: "dynamicLeveryFeePercent d = Fin 0.05"
    using fs(9) cp by simp
  have std: "standardFee d =
        jdiv (jmul (swapAmount (sw_amount0 sw) (sw_amount1 sw)) (Fin 0.05)) (Fin 100)"
    using fs(10) by (simp add: standardFeePercent_def)
  have dyn: "dynamicLeveryFee d =
        jdiv (jmul (swapAmount (sw_amount0 sw) (sw_amount1 sw)) (Fin 0.05)) (Fin 100)"
    using fs(11) fee by simp
  have amt: "standardFee d = Fin (max \<bar>a\<bar> \<bar>b\<bar> * 0.05 / 100) \<and>
             dynamicLeveryFee d = Fin (max \<bar>a\<bar> \<bar>b\<bar> * 0.05 / 100)"
    if "sw_amount0 sw = Fin a \<and> sw_amount1 sw = Fin b" for a b
    using that std dyn fee_amount_Fin [of "max \<bar>a\<bar> \<bar>b\<bar>" "0.05"]
    by (simp add: swapAmount_Fin)
  from swapStep_fields [OF c, of st] obtain st' where st': "swapStep obs st sw = Inr st'"
      "loc_totalStandardFee st' = jadd (loc_totalStandardFee st) (standardFee d)"
      "loc_totalDynamicLeveryFee st' = jadd (loc_totalDynamicLeveryFee st) (dynamicLeveryFee d)"
      "totalSwaps (result st') = totalSwaps (result st) + 1"
      "swaps (result st') = swaps (result st) @ [d]"
      "totalVolumeETH (result st') =
        jadd (totalVolumeETH (result st))
          (if jlt (sw_amount0 sw) (Fin 0) then sw_amount1 sw else jneg (sw_amount1 sw))"
      "totalVolumeUSDC (result st') =
        jadd (totalVolumeUSDC (result st))
          (if jlt (sw_amount0 sw) (Fin 0) then jneg (sw_amount0 sw) else sw_amount0 sw)"
    by blast
  show "\<exists>d st'. computeSwap obs sw = Inr d \<and> swapStep obs st sw = Inr st' \<and>
      dynamicLeveryFeePercent d = Fin 0.05 \<and>
      standardFee d =
        jdiv (jmul (swapAmount (sw_amount0 sw) (sw_amount1 sw)) (Fin 0.05)) (Fin 100) \<and>
      dynamicLeveryFee d =
        jdiv (jmul (swapAmount (sw_amount0 sw) (sw_amount1 sw)) (Fin 0.05)) (Fin 100) \<and>
      (\<forall>a b. sw_amount0 sw = Fin a \<and> sw_amount1 sw = Fin b \<longrightarrow>
         standardFee d = Fin (max \<bar>a\<bar> \<bar>b\<bar> * 0.05 / 100) \<and>
         dynamicLeveryFee d = Fin (max \<bar>a\<bar> \<bar>b\<bar> * 0.05 / 100)) \<and>
      loc_totalStandardFee st' = jadd (loc_totalStandardFee st) (standardFee d) \<and>
      loc_totalDynamicLeveryFee st' = jadd (loc_totalDynamicLeveryFee st) (dynamicLeveryFee d) \<and>
      totalStandardFee (finalize st') = loc_totalStandardFee st' \<and>
      totalDynamicLeveryFee (finalize st') = loc_totalDynamicLeveryFee st' \<and>
      totalSwaps (result st') = totalSwaps (result st) + 1 \<and>
      swaps (result st') = swaps (result st) @ [d] \<and>
      totalVolumeETH (result st') =
        jadd (totalVolumeETH (result st))
          (if jlt (sw_amount0 sw) (Fin 0) then sw_amount1 sw else jneg (sw_amount1 sw)) \<and>
      totalVolumeUSDC (result st') =
        jadd (totalVolumeUSDC (result st))
          (if jlt (sw_amount0 sw) (Fin 0) then jneg (sw_amount0 sw) else sw_amount0 sw)"
    apply (rule exI [of _ d], rule exI [of _ st'])
    using c st' fee std dyn amt finalize_totals(1,2) [of st']
    by (intro conjI allI impI) simp_all
qed

theorem unmatched_trade_base_fee_and_totals_witness:
  "findChainlinkPriceData sample_prices (sw_timestamp sample_early) = None \<and>
   toISOString (sw_timestamp sample_early * 1000) = Inr 50000 \<and>
   (\<exists>st'. swapStep sample_prices initial_state sample_early = Inr st' \<and>
      totalSwaps (result st') = 1 \<and>
      loc_totalStandardFee st' = Fin 1.515 \<and>
      loc_totalDynamicLeveryFee st' = Fin 1.515 \<and>
      totalVolumeETH (result st') = Fin 1 \<and>
      totalVolumeUSDC (result st') = Fin 3030)"
proof -
  have t: "toISOString (sw_timestamp sample_early * 1000) = Inr 50000"
    by code_simp
  from unmatched_trade_base_fee_and_totals [of sample_prices sample_early 50000 initial_state]
    find_sample_early t computeSwap_sample_early
  obtain st' where st': "swapStep sample_prices initial_state sample_early = Inr st'"
    "loc_totalStandardFee st' = jadd (loc_totalStandardFee initial_state) (Fin 1.515)"
    "loc_totalDynamicLeveryFee st' = jadd (loc_totalDynamicLeveryFee initial_state) (Fin 1.515)"
    "totalSwaps (result st') = totalSwaps (result initial_state) + 1"
    "totalVolumeETH (result st') =
        jadd (totalVolumeETH (result initial_state))
          (if jlt (sw_amount0 sample_early) (Fin 0) then sw_amount1 sample_early
           else jneg (sw_amount1 sample_early))"
    "totalVolumeUSDC (result st') =
        jadd (totalVolumeUSDC (result initial_state))
          (if jlt (sw_amount0 sample_early) (Fin 0) then jneg (sw_amount0 sample_early)
           else sw_amount0 sample_early)"
    by (auto simp: sample_early_data_def)
  then have "totalSwaps (result st') = 1 \<and>
      loc_totalStandardFee st' = Fin 1.515 \<and>
      loc_totalDynamicLeveryFee st' = Fin 1.515 \<and>
      totalVolumeETH (result st') = Fin 1 \<and>
      totalVolumeUSDC (result st') = Fin 3030"
    by (simp add: initial_state_def sample_early_def)
  with st'(1) find_sample_early t show ?thesis
    by blast
qed

section \<open>Unavailable oracle data and the empty report\<close>

lemma deviation_zero_oracle:
  "jmul (jdiv (jsub pr (Fin 0)) (Fin 0)) (Fin 100) =
     (if is_nan pr \<or> is_zero pr then NaN else inf_s (signbit pr))"
  by (cases pr) (auto simp: jsub_def jdiv_def jmul_def inf_s_def)

lemma computeSwap_sample_zero:
  "computeSwap sample_zero_prices sample_buy = Inr sample_zero_data"
  by code_simp

lemma find_sample_zero:
  "findChainlinkPriceData sample_zero_prices (sw_timestamp sample_buy)
     = Some \<lparr>obs_roundId = 1, obs_timestamp = 200, obs_price = 0\<rparr>"
  by code_simp

text \<open>
  C3, as stated, fails. For the sale dated before every oracle round the deviation
  percent and the efficiency percent are \<open>NaN\<close>; for the purchase matched to an oracle
  price of zero they are \<open>Infinity\<close> and \<open>-Infinity\<close> and the timestamp gap is the
  number 50; and a trade whose timestamp no Date can hold makes the computation raise.
\<close>

theorem unavailable_marker_counterexample:
  "findChainlinkPriceData sample_prices (sw_timestamp sample_early) = None \<and>
   map_sum id priceDifferencePercent (computeSwap sample_prices sample_early) = Inr NaN \<and>
   map_sum id leveryEfficiencyPercent (computeSwap sample_prices sample_early) = Inr NaN \<and>
   findChainlinkPriceData sample_zero_prices (sw_timestamp sample_buy)
     = Some \<lparr>obs_roundId = 1, obs_timestamp = 200, obs_price = 0\<rparr> \<and>
   map_sum id priceDifferencePercent (computeSwap sample_zero_prices sample_buy) = Inr PInf \<and>
   map_sum id leveryEfficiencyPercent (computeSwap sample_zero_prices sample_buy) = Inr NInf \<and>
   map_sum id timeDifference (computeSwap sample_zero_prices sample_buy) = Inr (Val 50) \<and>
   computeSwap sample_prices (sample_early \<lparr>sw_timestamp := - 8640000000001\<rparr>)
     = Inl RangeError"
proof -
  have "computeSwap sample_prices (sample_early \<lparr>sw_timestamp := - 8640000000001\<rparr>)
     = Inl RangeError"
    by (simp add: computeSwap_def toISOString_def)
  then show ?thesis
    by (simp add: find_sample_early find_sample_zero computeSwap_sample_early
        computeSwap_sample_zero sample_early_data_def sample_zero_data_def)
qed

text \<open>
  C3, amended. For a trade with no qualifying observation the computation does not raise
  (the trade's timestamp being one a Date can hold) and the oracle price, the oracle
  timestamp and the timestamp gap carry the marker \<open>"N/A"\<close>. For a trade matched to an
  oracle price of zero the computation does not raise either (both timestamps in the
  range of a Date), and nothing is marked: the gap is the numeric gap and the deviation
  percent is the quotient by zero, an infinity with the sign of the traded price, or
  \<open>NaN\<close> when the traded price is zero or \<open>NaN\<close>.
\<close>

theorem unavailable_oracle_handling:
  "(findChainlinkPriceData obs (sw_timestamp sw) = None \<and>
    toISOString (sw_timestamp sw * 1000) = Inr t \<longrightarrow>
      (\<exists>d. computeSwap obs sw = Inr d \<and> chainlinkPrice d = NA \<and>
           chainlinkTimestamp d = NA \<and> timeDifference d = NA)) \<and>
   (findChainlinkPriceData obs (sw_timestamp sw) = Some p \<and> obs_price p = 0 \<and>
    toISOString (sw_timestamp sw * 1000) = Inr t \<and>
    toISOString (obs_timestamp p * 1000) = Inr t' \<longrightarrow>
      (\<exists>d. computeSwap obs sw = Inr d \<and> chainlinkPrice d = Val (Fin 0) \<and>
           chainlinkTimestamp d = Val t' \<and>
           timeDifference d = Val \<bar>sw_timestamp sw - obs_timestamp p\<bar> \<and>
           priceDifferencePercent d =
             (if is_nan (price d) \<or> is_zero (price d) then NaN
              else inf_s (signbit (price d)))))"
proof (intro conjI impI)
  assume h: "findChainlinkPriceData obs (sw_timestamp sw) = None \<and>
             toISOString (sw_timestamp sw * 1000) = Inr t"
  then obtain d where c: "computeSwap obs sw = Inr d" and ts: "chainlinkTimestamp d = NA"
    using computeSwap_total_None by blast
  from computeSwap_fields(6,7) [OF c] h
  have "chainlinkPrice d = NA" and "timeDifference d = NA"
    by simp_all
  with c ts show "\<exists>d. computeSwap obs sw = Inr d \<and> chainlinkPrice d = NA \<and>
           chainlinkTimestamp d = NA \<and> timeDifference d = NA"
    by blast
next
  assume h: "findChainlinkPriceData obs (sw_timestamp sw) = Some p \<and> obs_price p = 0 \<and>
    toISOString (sw_timestamp sw * 1000) = Inr t \<and>
    toISOString (obs_timestamp p * 1000) = Inr t'"
  then obtain d where c: "computeSwap obs sw = Inr d" and ts: "chainlinkTimestamp d = Val t'"
    using computeSwap_total_Some by blast
  from computeSwap_fields(6,7) [OF c] h
  have cp: "chainlinkPrice d = Val (Fin 0)"
    and td: "timeDifference d = Val \<bar>sw_timestamp sw - obs_timestamp p\<bar>"
    by simp_all
  have "priceDifferencePercent d =
          (if is_nan (price d) \<or> is_zero (price d) then NaN else inf_s (signbit (price d)))"
    using computeSwap_fields(8) [OF c] cp deviation_zero_oracle [of "price d"] by simp
  with c ts cp td show "\<exists>d. computeSwap obs sw = Inr d \<and> chainlinkPrice d = Val (Fin 0) \<and>
           chainlinkTimestamp d = Val t' \<and>
           timeDifference d = Val \<bar>sw_timestamp sw - obs_timestamp p\<bar> \<and>
           priceDifferencePercent d =
             (if is_nan (price d) \<or> is_zero (price d) then NaN
              else inf_s (signbit (price d)))"
    by blast
qed

theorem unavailable_oracle_handling_witness:
  "findChainlinkPriceData sample_prices (sw_timestamp sample_early) = None \<and>
   toISOString (sw_timestamp sample_early * 1000) = Inr 50000 \<and>
   (\<exists>d. computeSwap sample_prices sample_early = Inr d \<and> chainlinkPrice d = NA \<and>
        chainlinkTimestamp d = NA \<and> timeDifference d = NA) \<and>
   findChainlinkPriceData sample_zero_prices (sw_timestamp sample_buy)
     = Some \<lparr>obs_roundId = 1, obs_timestamp = 200, obs_price = 0\<rparr> \<and>
   toISOString (sw_timestamp sample_buy * 1000) = Inr 250000 \<and>
   toISOString (200 * 1000) = Inr 200000 \<and>
   (\<exists>d. computeSwap sample_zero_prices sample_buy = Inr d \<and>
        chainlinkPrice d = Val (Fin 0) \<and> timeDifference d = Val 50)"
proof -
  have t1: "toISOString (sw_timestamp sample_early * 1000) = Inr 50000"
    and t2: "toISOString (sw_timestamp sample_buy * 1000) = Inr 250000"
    and t3: "toISOString (200 * 1000) = Inr 200000"
    by code_simp+
  have a: "\<exists>d. computeSwap sample_prices sample_early = Inr d \<and> chainlinkPrice d = NA \<and>
        chainlinkTimestamp d = NA \<and> timeDifference d = NA"
    using unavailable_oracle_handling [of sample_prices sample_early 50000] find_sample_early t1
    by blast
  have "\<exists>d. computeSwap sample_zero_prices sample_buy = Inr d \<and>
        chainlinkPrice d = Val (Fin 0) \<and>
        timeDifference d = Val \<bar>sw_timestamp sample_buy -
          obs_timestamp \<lparr>obs_roundId = 1, obs_timestamp = 200, obs_price = 0\<rparr>\<bar>"
    using unavailable_oracle_handling
            [of sample_zero_prices sample_buy 250000
                "\<lparr>obs_roundId = 1, obs_timestamp = 200, obs_price = 0\<rparr>" 200000]
      find_sample_zero t2 t3
    by auto
  then have b: "\<exists>d. computeSwap sample_zero_prices sample_buy = Inr d \<and>
        chainlinkPrice d = Val (Fin 0) \<and> timeDifference d = Val 50"
    by (simp add: sample_buy_def)
  from a b find_sample_early find_sample_zero t1 t2 t3 show ?thesis
    by (intro conjI)
qed

text \<open>
  C6 fails on the code. With no trades, finalization divides the efficiency sum 0 by the
  trade count 0: the report's average efficiency percent is \<open>NaN\<close>, which
  \<open>JSON.stringify\<close> then writes as \<open>null\<close>.
\<close>

theorem empty_report_average_is_NaN:
  "map_sum id averageLeveryEfficiencyPercent (main_report obs []) = Inr (jdiv (Fin 0) (Fin 0)) \<and>
   jdiv (Fin 0) (Fin 0) = NaN \<and> json_number NaN = None \<and>
   map_sum id totalSwaps (main_report obs []) = Inr 0"
  by (simp add: main_report_def finalize_def initial_state_def jdiv_def)

section \<open>The oracle history builder: requests and duplicates\<close>

lemma walk_rounds_stop:
  assumes "\<not> (real_of_int (updatedAt rd) > startTime \<and> roundId > 0)"
  shows "walk_rounds pf startTime endTime roundId rd prices fetched
           = (fetched, Inr (roundId, prices))"
  by (subst walk_rounds.simps) (rule if_not_P [OF assms])

lemma walk_rounds_fail:
  "real_of_int (updatedAt rd) > startTime \<and> roundId > 0 \<Longrightarrow>
   fetchRoundDataWithRetry pf (roundId - 1) = Inl e \<Longrightarrow>
     walk_rounds pf startTime endTime roundId rd prices fetched = (fetched @ [roundId - 1], Inl e)"
  by (subst walk_rounds.simps) simp

lemma walk_rounds_step:
  "real_of_int (updatedAt rd) > startTime \<and> roundId > 0 \<Longrightarrow>
   fetchRoundDataWithRetry pf (roundId - 1) = Inr rd' \<Longrightarrow>
     walk_rounds pf startTime endTime roundId rd prices fetched =
     walk_rounds pf startTime endTime (roundId - 1) rd'
       (if real_of_int (updatedAt rd) \<le> endTime \<and>
           find (\<lambda>p. obs_roundId p = roundId) prices = None
        then prices @ [mkObservation pf roundId rd] else prices)
       (fetched @ [roundId - 1])"
  by (subst walk_rounds.simps) simp

text \<open>The walk makes at most \<open>roundId\<close> requests and none for an identifier below zero.\<close>

lemma walk_rounds_request_bound:
  "length (fst (walk_rounds pf startTime endTime roundId rd prices fetched))
     \<le> length fetched + nat roundId"
proof (induction pf startTime endTime roundId rd prices fetched rule: walk_rounds.induct)
  case (1 pf startTime endTime roundId rd prices fetched)
  show ?case
  proof (cases "real_of_int (updatedAt rd) > startTime \<and> roundId > 0")
    case False
    then show ?thesis by (simp add: walk_rounds_stop)
  next
    case True
    show ?thesis
    proof (cases "fetchRoundDataWithRetry pf (roundId - 1)")
      case (Inl e)
      with True show ?thesis by (auto simp: walk_rounds_fail)
    next
      case (Inr rd')
      from "1.IH" [OF True Inr] True show ?thesis
        by (auto simp: walk_rounds_step [OF True Inr] nat_diff_distrib)
    qed
  qed
qed

lemma walk_rounds_requests_nonneg:
  "walk_rounds pf startTime endTime roundId rd prices fetched = (fetched', out) \<Longrightarrow>
     \<forall>r \<in> set fetched'. r \<in> set fetched \<or> 0 \<le> r"
proof (induction pf startTime endTime roundId rd prices fetched rule: walk_rounds.induct)
  case (1 pf startTime endTime roundId rd prices fetched)
  show ?case
  proof (cases "real_of_int (updatedAt rd) > startTime \<and> roundId > 0")
    case False
    with "1.prems" show ?thesis by (simp add: walk_rounds_stop)
  next
    case True
    show ?thesis
    proof (cases "fetchRoundDataWithRetry pf (roundId - 1)")
      case (Inl e)
      with True "1.prems" show ?thesis by (auto simp: walk_rounds_fail)
    next
      case (Inr rd')
      with True "1.prems" have
        "walk_rounds pf startTime endTime (roundId - 1) rd'
           (if real_of_int (updatedAt rd) \<le> endTime \<and>
               find (\<lambda>p. obs_roundId p = roundId) prices = None
            then prices @ [mkObservation pf roundId rd] else prices)
           (fetched @ [roundId - 1]) = (fetched', out)"
        by (simp add: walk_rounds_step)
      from "1.IH" [OF True Inr this] True show ?thesis
        by auto
    qed
  qed
qed

lemma find_roundId_None:
  "find (\<lambda>p. obs_roundId p = r) prices = None \<longleftrightarrow> r \<notin> set (map obs_roundId prices)"
  by (auto simp: find_None_iff)

text \<open>The walk appends no round whose identifier is already in \<open>prices\<close>.\<close>

lemma walk_rounds_keeps_distinct:
  "walk_rounds pf startTime endTime roundId rd prices fetched = (fetched', Inr (roundId', prices')) \<Longrightarrow>
     distinct (map obs_roundId prices) \<Longrightarrow> distinct (map obs_roundId prices')"
proof (induction pf startTime endTime roundId rd prices fetched rule: walk_rounds.induct)
  case (1 pf startTime endTime roundId rd prices fetched)
  show ?case
  proof (cases "real_of_int (updatedAt rd) > startTime \<and> roundId > 0")
    case False
    with "1.prems" show ?thesis by (simp add: walk_rounds_stop)
  next
    case True
    show ?thesis
    proof (cases "fetchRoundDataWithRetry pf (roundId - 1)")
      case (Inl e)
      with True "1.prems" show ?thesis by (simp add: walk_rounds_fail)
    next
      case (Inr rd')
      let ?prices = "if real_of_int (updatedAt rd) \<le> endTime \<and>
               find (\<lambda>p. obs_roundId p = roundId) prices = None
            then prices @ [mkObservation pf roundId rd] else prices"
      from Inr True "1.prems"(1) have w:
        "walk_rounds pf startTime endTime (roundId - 1) rd' ?prices
           (fetched @ [roundId - 1]) = (fetched', Inr (roundId', prices'))"
        by (simp add: walk_rounds_step)
      have "distinct (map obs_roundId ?prices)"
        using "1.prems"(2) by (auto simp: find_roundId_None mkObservation_def)
      from "1.IH" [OF True Inr w this] show ?thesis .
    qed
  qed
qed

lemma extra_rounds_keeps_requests:
  "set fetched \<subseteq> set (fst (extra_rounds pf m roundId prices fetched))"
proof (induction m arbitrary: roundId prices fetched)
  case 0
  show ?case by simp
next
  case (Suc m)
  show ?case
  proof (cases "fetchRoundDataWithRetry pf (roundId - 1)")
    case (Inl e)
    then show ?thesis by auto
  next
    case (Inr rd)
    then show ?thesis
      using Suc.IH [of "fetched @ [roundId - 1]" "roundId - 1"
                     "prices @ [mkObservation pf (roundId - 1) rd]"]
      by auto
  qed
qed

lemma extra_rounds_requests_first:
  assumes "0 < n"
  shows "roundId - 1 \<in> set (fst (extra_rounds pf n roundId prices fetched))"
proof -
  from assms obtain m where n: "n = Suc m"
    by (cases n) auto
  show ?thesis
  proof (cases "fetchRoundDataWithRetry pf (roundId - 1)")
    case (Inl e)
    with n show ?thesis by simp
  next
    case (Inr rd)
    with n show ?thesis
      using extra_rounds_keeps_requests [of "fetched @ [roundId - 1]" pf m "roundId - 1"
                     "prices @ [mkObservation pf (roundId - 1) rd]"]
      by simp
  qed
qed

lemma builder_requests_below_zero:
  assumes "latestRound pf = 0" and "fetchRoundDataWithRetry pf 0 = Inr rd"
  shows "- 1 \<in> set (fst (fetchHistoricalChainlinkPrices pf cache startTime endTime))"
proof -
  have w: "walk_rounds pf startTime endTime 0 rd cache [0] = ([0], Inr (0, cache))"
    by (simp add: walk_rounds_stop)
  have "- 1 \<in> set (fst (extra_rounds pf 5 0 cache [0]))"
    using extra_rounds_requests_first [of 5 0 pf cache "[0]"] by simp
  with assms w show ?thesis
    by (simp add: fetchHistoricalChainlinkPrices_def)
qed

text \<open>
  C7 fails on the code. The walk is a total function (its round identifier decreases
  and the loop stops at zero), and it never requests an identifier below zero; the five
  extra fetches that follow subtract one without any test. On a feed whose latest round
  is round 2 and whose rounds are all newer than the start boundary, the builder
  requests round -1 and the build aborts; on a feed object that answers that request,
  rounds -1 to -5 are in the returned sequence.
\<close>

theorem margin_fetch_below_zero:
  "fetchHistoricalChainlinkPrices sample_short_feed [] 0 2000 = ([2, 1, 0, - 1], Inl FetchFailed) \<and>
   map_prod id (map_sum id (map obs_roundId))
     (fetchHistoricalChainlinkPrices sample_lenient_feed [] 0 2000)
     = ([2, 1, 0, - 1, - 2, - 3, - 4, - 5], Inr [2, 1, - 1, - 2, - 3, - 4, - 5])"
  by code_simp

text \<open>
  C8 fails on the code. The walk skips a round whose identifier is in the cache, but
  the five extra rounds are pushed without that test: a second run on the unchanged
  feed, with the result of the first run as its cache, appends rounds 5, 4, 3, 2 and 1
  again.
\<close>

theorem rerun_duplicates_margin_rounds:
  "snd (fetchHistoricalChainlinkPrices sample_feed [] 1065 2000) = Inr sample_cache \<and>
   snd (fetchHistoricalChainlinkPrices sample_feed sample_cache 1065 2000)
     = Inr (sample_cache @ drop 4 sample_cache) \<and>
   map obs_roundId (sample_cache @ drop 4 sample_cache)
     = [10, 9, 8, 7, 5, 4, 3, 2, 1, 5, 4, 3, 2, 1]"
  by code_simp

section \<open>The trade ingestor: pagination\<close>

lemma fetchSwaps_loop_unroll:
  "list_all (\<lambda>i. full_page (page_at src ts i)) [0..<k] \<Longrightarrow>
     fetchSwaps_loop src ts 0 '''' [] [] =
     fetchSwaps_loop src ts k (cursor_at src ts k)
       (concat (map (\<lambda>i. records_of (page_at src ts i)) [0..<k]))
       (map (cursor_at src ts) [0..<k])"
proof (induction k)
  case 0
  show ?case by simp
next
  case (Suc k)
  then have full: "full_page (page_at src ts k)"
    and prev: "list_all (\<lambda>i. full_page (page_at src ts i)) [0..<k]"
    by simp_all
  from full obtain page where pg: "src k ts (cursor_at src ts k) = Pool page"
    and len: "\<not> length page < 1000"
    by (cases "page_at src ts k") (auto simp: page_at_def)
  have "fetchSwaps_loop src ts k (cursor_at src ts k)
          (concat (map (\<lambda>i. records_of (page_at src ts i)) [0..<k]))
          (map (cursor_at src ts) [0..<k]) =
        fetchSwaps_loop src ts (Suc k) (cursor_at src ts (Suc k))
          (concat (map (\<lambda>i. records_of (page_at src ts i)) [0..<Suc k]))
          (map (cursor_at src ts) [0..<Suc k])"
    using pg len
    by (subst fetchSwaps_loop.simps) (simp add: page_at_def)
  with Suc.IH [OF prev] show ?case by simp
qed

lemma fetchSwaps_loop_stop:
  assumes "first_short src ts k"
  shows "fetchSwaps_loop src ts 0 '''' [] [] =
     Some (map (cursor_at src ts) [0..<Suc k],
           (case page_at src ts k of
              RequestError \<Rightarrow> Inl FetchFailed
            | NoPool \<Rightarrow> Inl PoolNotFound
            | Pool page \<Rightarrow>
                Inr (concat (map (\<lambda>i. records_of (page_at src ts i)) [0..<k]) @ page)))"
proof -
  from assms have prev: "list_all (\<lambda>i. full_page (page_at src ts i)) [0..<k]"
    and stop: "\<not> full_page (page_at src ts k)"
    by (simp_all add: first_short_def)
  have "fetchSwaps_loop src ts k (cursor_at src ts k)
          (concat (map (\<lambda>i. records_of (page_at src ts i)) [0..<k]))
          (map (cursor_at src ts) [0..<k]) =
     Some (map (cursor_at src ts) [0..<Suc k],
           (case page_at src ts k of
              RequestError \<Rightarrow> Inl FetchFailed
            | NoPool \<Rightarrow> Inl PoolNotFound
            | Pool page \<Rightarrow>
                Inr (concat (map (\<lambda>i. records_of (page_at src ts i)) [0..<k]) @ page)))"
  proof (cases "page_at src ts k")
    case RequestError
    then show ?thesis
      by (subst fetchSwaps_loop.simps) (simp add: page_at_def)
  next
    case NoPool
    then show ?thesis
      by (subst fetchSwaps_loop.simps) (simp add: page_at_def)
  next
    case (Pool page)
    with stop have "length page < 1000" by simp
    with Pool show ?thesis
      by (subst fetchSwaps_loop.simps) (simp add: page_at_def)
  qed
  with fetchSwaps_loop_unroll [OF prev] show ?thesis by simp
qed

lemma fetchSwaps_loop_returns:
  assumes "fetchSwaps_loop src ts n c acc cs = Some r"
  shows "c = cursor_at src ts n \<longrightarrow>
         (\<exists>k\<ge>n. (\<forall>i. n \<le> i \<and> i < k \<longrightarrow> full_page (page_at src ts i)) \<and>
                 \<not> full_page (page_at src ts k))"
proof (rule fetchSwaps_loop.raw_induct
    [where P = "\<lambda>src ts n c acc cs r. c = cursor_at src ts n \<longrightarrow>
         (\<exists>k\<ge>n. (\<forall>i. n \<le> i \<and> i < k \<longrightarrow> full_page (page_at src ts i)) \<and>
                 \<not> full_page (page_at src ts k))", OF _ assms])
  fix f :: "(nat \<Rightarrow> int \<Rightarrow> string \<Rightarrow> response) \<Rightarrow> int \<Rightarrow> nat \<Rightarrow> string \<Rightarrow> swap list \<Rightarrow> string list
     \<Rightarrow> (string list \<times> (error + swap list)) option"
  fix src ts n lastId allSwaps cursors r
  assume IH: "\<And>src ts n lastId allSwaps cursors y.
        f src ts n lastId allSwaps cursors = Some y \<Longrightarrow>
        lastId = cursor_at src ts n \<longrightarrow>
         (\<exists>k\<ge>n. (\<forall>i. n \<le> i \<and> i < k \<longrightarrow> full_page (page_at src ts i)) \<and>
                 \<not> full_page (page_at src ts k))"
  assume step: "(case src n ts lastId of
      RequestError \<Rightarrow> Some (cursors @ [lastId], Inl FetchFailed)
      | NoPool \<Rightarrow> Some (cursors @ [lastId], Inl PoolNotFound)
      | Pool page \<Rightarrow>
          if length page < 1000
          then Some (cursors @ [lastId], Inr (allSwaps @ page))
          else f src ts (n + 1) (sw_id (last page))
                (allSwaps @ page) (cursors @ [lastId])) = Some r"
  show "lastId = cursor_at src ts n \<longrightarrow>
         (\<exists>k\<ge>n. (\<forall>i. n \<le> i \<and> i < k \<longrightarrow> full_page (page_at src ts i)) \<and>
                 \<not> full_page (page_at src ts k))"
  proof
    assume c: "lastId = cursor_at src ts n"
    show "\<exists>k\<ge>n. (\<forall>i. n \<le> i \<and> i < k \<longrightarrow> full_page (page_at src ts i)) \<and>
                 \<not> full_page (page_at src ts k)"
    proof (cases "full_page (page_at src ts n)")
      case False
      then show ?thesis by (intro exI [of _ n]) auto
    next
      case True
      then obtain page where pg: "src n ts lastId = Pool page" and len: "\<not> length page < 1000"
        using c by (cases "page_at src ts n") (auto simp: page_at_def)
      with step have "f src ts (n + 1) (sw_id (last page)) (allSwaps @ page)
                (cursors @ [lastId]) = Some r"
        by simp
      from IH [OF this] pg c
      obtain k where k: "Suc n \<le> k" "\<forall>i. Suc n \<le> i \<and> i < k \<longrightarrow> full_page (page_at src ts i)"
        "\<not> full_page (page_at src ts k)"
        by auto
      have "\<forall>i. n \<le> i \<and> i < k \<longrightarrow> full_page (page_at src ts i)"
      proof (intro allI impI)
        fix i assume "n \<le> i \<and> i < k"
        then consider "i = n" | "Suc n \<le> i \<and> i < k" by linarith
        then show "full_page (page_at src ts i)"
          using True k(2) by cases auto
      qed
      with k show ?thesis by (intro exI [of _ k]) auto
    qed
  qed
qed

lemma fetchSwaps_loop_returns_iff:
  "(\<exists>r. fetchSwaps_loop src ts 0 '''' [] [] = Some r) \<longleftrightarrow> (\<exists>k. first_short src ts k)"
proof
  assume "\<exists>r. fetchSwaps_loop src ts 0 '''' [] [] = Some r"
  then obtain r where "fetchSwaps_loop src ts 0 '''' [] [] = Some r" ..
  from fetchSwaps_loop_returns [OF this]
  obtain k where "\<forall>i. i < k \<longrightarrow> full_page (page_at src ts i)" "\<not> full_page (page_at src ts k)"
    by auto
  then have "first_short src ts k"
    by (simp add: first_short_def list_all_iff)
  then show "\<exists>k. first_short src ts k" ..
next
  assume "\<exists>k. first_short src ts k"
  then obtain k where "first_short src ts k" ..
  from fetchSwaps_loop_stop [OF this] show "\<exists>r. fetchSwaps_loop src ts 0 '''' [] [] = Some r"
    by blast
qed

text \<open>
  C9. Let page \<open>k\<close> be the first page that is not a pool page of at least 1000
  records, pages and cursors being those of the pagination rule (the cursor of a page is
  the identifier of the last record of the page before). Then \<open>fetchSwaps\<close> returns
  after exactly the requests for pages 0 to \<open>k\<close>, made with those cursors: with all
  records retrieved, in order, when page \<open>k\<close> is a pool page (then of fewer than 1000
  records, possibly none), with the error "Pool not found" when the answer has no pool,
  and with the error of the request when the request itself fails; no request is
  repeated. It returns at all exactly when there is such a page.
\<close>

theorem fetchSwaps_pagination:
  "(first_short src (startTime div 1000) k \<longrightarrow>
      (\<exists>out. fetchSwaps src startTime =
               Some (map (cursor_at src (startTime div 1000)) [0..<Suc k], out) \<and>
         (case page_at src (startTime div 1000) k of
            Pool page \<Rightarrow>
              length page < 1000 \<and>
              out = Inr (concat (map (\<lambda>i. records_of (page_at src (startTime div 1000) i)) [0..<k])
                         @ page)
          | NoPool \<Rightarrow> out = Inl PoolNotFound
          | RequestError \<Rightarrow> out = Inl FetchFailed))) \<and>
   ((\<exists>r. fetchSwaps src startTime = Some r) \<longleftrightarrow> (\<exists>k. first_short src (startTime div 1000) k))"
proof (intro conjI impI)
  assume fs: "first_short src (startTime div 1000) k"
  then have "\<not> full_page (page_at src (startTime div 1000) k)"
    by (simp add: first_short_def)
  with fetchSwaps_loop_stop [OF fs]
  show "\<exists>out. fetchSwaps src startTime =
               Some (map (cursor_at src (startTime div 1000)) [0..<Suc k], out) \<and>
         (case page_at src (startTime div 1000) k of
            Pool page \<Rightarrow>
              length page < 1000 \<and>
              out = Inr (concat (map (\<lambda>i. records_of (page_at src (startTime div 1000) i)) [0..<k])
                         @ page)
          | NoPool \<Rightarrow> out = Inl PoolNotFound
          | RequestError \<Rightarrow> out = Inl FetchFailed)"
    by (cases "page_at src (startTime div 1000) k") (simp_all add: fetchSwaps_def)
next
  show "(\<exists>r. fetchSwaps src startTime = Some r) \<longleftrightarrow> (\<exists>k. first_short src (startTime div 1000) k)"
    using fetchSwaps_loop_returns_iff [of src "startTime div 1000"]
    by (simp add: fetchSwaps_def)
qed

lemma sample_source_pages:
  "page_at sample_source ts 0 = Pool (replicate 1000 sample_buy)"
  "cursor_at sample_source ts (Suc 0) = ''s1''"
  "page_at sample_source ts (Suc 0) = Pool [sample_sell]"
  by (simp_all add: page_at_def sample_source_def sample_buy_def)

theorem fetchSwaps_pagination_witness:
  "first_short sample_source (5000 div 1000) 1 \<and>
   fetchSwaps sample_source 5000 =
     Some (['''', ''s1''], Inr (replicate 1000 sample_buy @ [sample_sell])) \<and>
   first_short sample_absent_source (5000 div 1000) 0 \<and>
   fetchSwaps sample_absent_source 5000 = Some ([''''], Inl PoolNotFound)"
proof -
  have f1: "first_short sample_source (5000 div 1000) 1"
    by (simp add: first_short_def sample_source_pages)
  have f2: "first_short sample_absent_source (5000 div 1000) 0"
    by (simp add: first_short_def page_at_def sample_absent_source_def)
  from fetchSwaps_pagination [of sample_source 5000 1] f1
  have a: "fetchSwaps sample_source 5000 =
     Some (['''', ''s1''], Inr (replicate 1000 sample_buy @ [sample_sell]))"
    by (auto simp: sample_source_pages sample_source_def sample_buy_def)
  from fetchSwaps_pagination [of sample_absent_source 5000 0] f2
  have b: "fetchSwaps sample_absent_source 5000 = Some ([''''], Inl PoolNotFound)"
    by (auto simp: page_at_def sample_absent_source_def)
  from f1 a f2 b show ?thesis by (intro conjI)
qed

end
